theory Spec2Isabelle
  imports Main
begin

section \<open>Widget tools of pkg/aiusechat/tools\_widget.go\<close>

text \<open>
  The Go file defines four AI tools (widget\_open, widget\_close, widget\_rename,
  widget\_move). Each has a parser that turns an untyped \<open>any\<close> payload into a
  typed struct, and a callback that runs a fixed sequence of calls to the object store, the
  per-tab layout queue, the block controller and the update broker.

  The embedding follows the file: payloads are JSON values, the structs are records, an
  \<open>error\<close> return is the left summand of a sum, and the collaborators are functions on
  an explicit \<open>world\<close> that also keeps the ordered log of the calls made.
\<close>

subsection \<open>Untyped payloads\<close>

text \<open>
  A tool payload is the \<open>any\<close> produced by decoding the model's tool call: nil, a
  bool, a number, a string, a slice or a \<open>map[string]any\<close>. \<open>JNull\<close> is the nil
  interface. Numbers are never inspected by this file, so an integer stands for them. An
  object is listed in the order \<open>json.Marshal\<close> writes it.
\<close>

datatype json =
    JNull
  | JBool bool
  | JNumber int
  | JString string
  | JArray "json list"
  | JObject "(string \<times> json) list"

type_synonym meta = "string \<rightharpoonup> json"

text \<open>
  A Go \<open>error\<close> carries its message; a run-time panic is kept apart from it.
\<close>

datatype err = Error string | Panic string

subsection \<open>encoding/json: decoding an object into a struct of string fields\<close>

text \<open>
  The parsers call \<open>json.Marshal\<close> and then \<open>json.Unmarshal\<close> into a struct whose
  fields are all strings. Marshalling a value that came from JSON cannot fail, so that branch
  of the source has no input here. \<open>json.Unmarshal\<close> matches an object key to a field by
  its exact name, else by a case-folded comparison: ASCII letters are upper-cased, and the
  two runes U+017F (long s, bytes C5 BF) and U+212A (Kelvin sign, bytes E2 84 AA) fold to
  S and K. A key that matches no field is skipped (no \<open>DisallowUnknownFields\<close> is set), a
  null value leaves the field as it is, a string is stored, and any other value is a type
  error, of which the first is reported once the object has been read.
\<close>

definition upperASCII :: "char \<Rightarrow> char" where
  "upperASCII c =
     (if (97::nat) \<le> of_char c \<and> of_char c \<le> (122::nat)
      then char_of (of_char c - (32::nat)) else c)"

fun foldName :: "string \<Rightarrow> string" where
  "foldName [] = []"
| "foldName (c # cs) =
     (if c = CHR 0xC5 \<and> take 1 cs = [CHR 0xBF] then CHR ''S'' # foldName (drop 1 cs)
      else if c = CHR 0xE2 \<and> take 2 cs = [CHR 0x84, CHR 0xAA] then CHR ''K'' # foldName (drop 2 cs)
      else upperASCII c # foldName cs)"

definition findField :: "string list \<Rightarrow> string \<Rightarrow> string option" where
  "findField names key =
     (case find (\<lambda>n. n = key) names of
        Some n \<Rightarrow> Some n
      | None \<Rightarrow> find (\<lambda>n. foldName n = foldName key) names)"

fun jsonKind :: "json \<Rightarrow> string" where
  "jsonKind JNull = ''null''"
| "jsonKind (JBool b) = ''bool''"
| "jsonKind (JNumber n) = ''number''"
| "jsonKind (JString s) = ''string''"
| "jsonKind (JArray xs) = ''array''"
| "jsonKind (JObject kvs) = ''object''"

definition typeError :: "string \<Rightarrow> json \<Rightarrow> string" where
  "typeError field v =
     ''json: cannot unmarshal '' @ jsonKind v @ '' into Go struct field '' @ field @ '' of type string''"

text \<open>
  The decoded struct is a function from the JSON name of a field to its value; a field that
  no key set holds Go's zero value, the empty string. The accumulator pairs the first type
  error seen with the fields stored so far.
\<close>

fun decodeFields ::
  "string list \<Rightarrow> (string \<times> json) list \<Rightarrow> string option \<times> (string \<Rightarrow> string)
     \<Rightarrow> string option \<times> (string \<Rightarrow> string)" where
  "decodeFields names [] acc = acc"
| "decodeFields names ((k, v) # kvs) (e, fs) =
     (case findField names k of
        None \<Rightarrow> decodeFields names kvs (e, fs)
      | Some f \<Rightarrow>
          (case v of
             JNull \<Rightarrow> decodeFields names kvs (e, fs)
           | JString s \<Rightarrow> decodeFields names kvs (e, fs(f := s))
           | _ \<Rightarrow> decodeFields names kvs
                    (case e of None \<Rightarrow> Some (typeError f v) | Some e' \<Rightarrow> Some e', fs)))"

definition unmarshal :: "string list \<Rightarrow> json \<Rightarrow> string + (string \<Rightarrow> string)" where
  "unmarshal names input =
     (case input of
        JObject kvs \<Rightarrow>
          (case decodeFields names kvs (None, \<lambda>_. []) of
             (Some e, fs) \<Rightarrow> Inl e
           | (None, fs) \<Rightarrow> Inr fs)
      | JNull \<Rightarrow> Inr (\<lambda>_. [])
      | _ \<Rightarrow> Inl (''json: cannot unmarshal '' @ jsonKind input @ '' into Go value of type struct''))"

text \<open>A key of a payload is known to a struct when \<open>json.Unmarshal\<close> finds a field for it.\<close>

definition knownKey :: "string list \<Rightarrow> string \<times> json \<Rightarrow> bool" where
  "knownKey names kv = (findField names (fst kv) \<noteq> None)"

subsection \<open>The input structs and their parsers\<close>

text \<open>
  Record fields are global names in HOL, so the fields that several Go structs share
  (\<open>WidgetId\<close>, \<open>Position\<close>) carry the tool's name in front.
\<close>

record WidgetOpenToolInput =
  WidgetType :: string
  Url :: string
  File :: string
  Connection :: string
  SplitDirection :: string
  TargetWidget :: string
  OpenPosition :: string

definition openFieldNames :: "string list" where
  "openFieldNames =
     [''widget_type'', ''url'', ''file'', ''connection'', ''split_direction'',
      ''target_widget'', ''position'']"

definition validTypes :: "string list" where
  "validTypes = [''term'', ''web'', ''preview'', ''cpuplot'']"

definition validDirections :: "string list" where
  "validDirections = [''horizontal'', ''vertical'']"

definition validPositions :: "string list" where
  "validPositions = [''before'', ''after'']"

definition parseWidgetOpenInput :: "json \<Rightarrow> err + WidgetOpenToolInput" where
  "parseWidgetOpenInput input =
     (if input = JNull then Inl (Error ''input is required'')
      else case unmarshal openFieldNames input of
        Inl e \<Rightarrow> Inl (Error (''failed to unmarshal input: '' @ e))
      | Inr fs \<Rightarrow>
          let result = \<lparr> WidgetType = fs ''widget_type'', Url = fs ''url'', File = fs ''file'',
                         Connection = fs ''connection'', SplitDirection = fs ''split_direction'',
                         TargetWidget = fs ''target_widget'', OpenPosition = fs ''position'' \<rparr>
          in
          if WidgetType result = [] then Inl (Error ''widget_type is required'')
          else if WidgetType result \<notin> set validTypes then
            Inl (Error (''invalid widget_type: '' @ WidgetType result
                        @ ''. Valid types are: term, web, preview, cpuplot''))
          else if WidgetType result = ''web'' \<and> Url result = [] then
            Inl (Error ''url is required for web widget'')
          else if SplitDirection result \<noteq> [] \<and> SplitDirection result \<notin> set validDirections then
            Inl (Error (''invalid split_direction: '' @ SplitDirection result
                        @ ''. Valid values are: horizontal, vertical''))
          else if SplitDirection result \<noteq> [] \<and> TargetWidget result = [] then
            Inl (Error ''target_widget is required when split_direction is specified'')
          else if OpenPosition result \<noteq> [] \<and> OpenPosition result \<notin> set validPositions then
            Inl (Error (''invalid position: '' @ OpenPosition result
                        @ ''. Valid values are: before, after''))
          else Inr result)"

record WidgetCloseToolInput =
  CloseWidgetId :: string

definition closeFieldNames :: "string list" where
  "closeFieldNames = [''widget_id'']"

definition parseWidgetCloseInput :: "json \<Rightarrow> err + WidgetCloseToolInput" where
  "parseWidgetCloseInput input =
     (if input = JNull then Inl (Error ''input is required'')
      else case unmarshal closeFieldNames input of
        Inl e \<Rightarrow> Inl (Error (''failed to unmarshal input: '' @ e))
      | Inr fs \<Rightarrow>
          let result = \<lparr> CloseWidgetId = fs ''widget_id'' \<rparr> in
          if CloseWidgetId result = [] then Inl (Error ''widget_id is required'')
          else Inr result)"

record WidgetRenameToolInput =
  RenameWidgetId :: string
  Name :: string

definition renameFieldNames :: "string list" where
  "renameFieldNames = [''widget_id'', ''name'']"

definition parseWidgetRenameInput :: "json \<Rightarrow> err + WidgetRenameToolInput" where
  "parseWidgetRenameInput input =
     (if input = JNull then Inl (Error ''input is required'')
      else case unmarshal renameFieldNames input of
        Inl e \<Rightarrow> Inl (Error (''failed to unmarshal input: '' @ e))
      | Inr fs \<Rightarrow>
          let result = \<lparr> RenameWidgetId = fs ''widget_id'', Name = fs ''name'' \<rparr> in
          if RenameWidgetId result = [] then Inl (Error ''widget_id is required'')
          else if Name result = [] then Inl (Error ''name is required'')
          else Inr result)"

record WidgetMoveToolInput =
  MoveWidgetId :: string
  TargetWidgetId :: string
  Direction :: string
  MovePosition :: string

definition moveFieldNames :: "string list" where
  "moveFieldNames = [''widget_id'', ''target_widget_id'', ''direction'', ''position'']"

definition parseWidgetMoveInput :: "json \<Rightarrow> err + WidgetMoveToolInput" where
  "parseWidgetMoveInput input =
     (if input = JNull then Inl (Error ''input is required'')
      else case unmarshal moveFieldNames input of
        Inl e \<Rightarrow> Inl (Error (''failed to unmarshal input: '' @ e))
      | Inr fs \<Rightarrow>
          let result = \<lparr> MoveWidgetId = fs ''widget_id'',
                         TargetWidgetId = fs ''target_widget_id'',
                         Direction = fs ''direction'', MovePosition = fs ''position'' \<rparr>
          in
          if MoveWidgetId result = [] then Inl (Error ''widget_id is required'')
          else if TargetWidgetId result = [] then Inl (Error ''target_widget_id is required'')
          else if Direction result = [] then Inl (Error ''direction is required'')
          else if Direction result \<notin> set validDirections then
            Inl (Error (''invalid direction: '' @ Direction result
                        @ ''. Valid values are: horizontal, vertical''))
          else if MovePosition result \<noteq> [] \<and> MovePosition result \<notin> set validPositions then
            Inl (Error (''invalid position: '' @ MovePosition result
                        @ ''. Valid values are: before, after''))
          else Inr result)"

subsection \<open>Layout actions, and the world of the collaborators\<close>

text \<open>
  Modelled from the spec: the action-type constants of package wcore, which the file names
  but does not define. The spec's data model gives the six kinds.
\<close>

datatype LayoutActionDataType =
    LayoutActionDataType_Insert
  | LayoutActionDataType_Remove
  | LayoutActionDataType_MoveHorizontal
  | LayoutActionDataType_MoveVertical
  | LayoutActionDataType_SplitHorizontal
  | LayoutActionDataType_SplitVertical

text \<open>
  The fields of \<open>waveobj.LayoutActionData\<close> that the file sets; a field a literal leaves
  out has Go's zero value (empty string, false).
\<close>

record LayoutActionData =
  ActionType :: LayoutActionDataType
  BlockId :: string
  TargetBlockId :: string
  Position :: string
  Focused :: bool

text \<open>
  Every call a callback makes to a collaborator is appended to a log, in order, whether it
  succeeds or not: the log is what a recording test double of the store, the queue, the
  controller and the broker would see.
\<close>

datatype call =
    CallCreateBlock meta
  | CallResolveBlockIdFromPrefix string
  | CallQueueLayoutActionForTab LayoutActionData
  | CallDeleteBlock string
  | CallUpdateObjectMeta string meta
  | CallResyncController string
  | CallSendWaveObjUpdate string
  | CallSendUpdateEvents

text \<open>
  The world is one tab scope (the \<open>tabId\<close> every definition closes over): the widget
  entities of the tab with their metadata, in creation order, the tab's layout queue, and the
  call log. Two fields stand for what the callbacks cannot see: \<open>faults\<close> says, for the
  n-th collaborator call, whether it fails for a reason of its own (a store error, the
  5-second deadline of the context) and with which message; \<open>new_oid\<close> is the opaque
  generator of canonical ids.
\<close>

record world =
  blocks :: "(string \<times> meta) list"
  layout_queue :: "LayoutActionData list"
  calls :: "call list"
  faults :: "nat \<Rightarrow> string option"
  new_oid :: "nat \<Rightarrow> string"

definition logCall :: "call \<Rightarrow> world \<Rightarrow> world" where
  "logCall c w = w\<lparr> calls := calls w @ [c] \<rparr>"

definition hasPrefix :: "string \<Rightarrow> string \<Rightarrow> bool" where
  "hasPrefix s p = (take (length p) s = p)"

text \<open>
  Modelled from the spec: \<open>wcore.CreateBlock\<close>, which is not in the file. It creates the
  widget entity with the given metadata and returns its canonical id.
\<close>

definition CreateBlock :: "meta \<Rightarrow> world \<Rightarrow> (string + string) \<times> world" where
  "CreateBlock m w =
     (let n = length (calls w); w1 = logCall (CallCreateBlock m) w in
      case faults w n of
        Some e \<Rightarrow> (Inl e, w1)
      | None \<Rightarrow> (Inr (new_oid w n), w1\<lparr> blocks := blocks w @ [(new_oid w n, m)] \<rparr>))"

text \<open>
  Modelled from the spec: \<open>wcore.ResolveBlockIdFromPrefix\<close>, which is not in the file. A
  case-sensitive prefix match against the canonical ids live in the tab; no match and
  several matches are the same error.
\<close>

definition ResolveBlockIdFromPrefix :: "string \<Rightarrow> world \<Rightarrow> (string + string) \<times> world" where
  "ResolveBlockIdFromPrefix p w =
     (let n = length (calls w); w1 = logCall (CallResolveBlockIdFromPrefix p) w in
      case faults w n of
        Some e \<Rightarrow> (Inl e, w1)
      | None \<Rightarrow>
          (case filter (\<lambda>oid. hasPrefix oid p) (map fst (blocks w)) of
             [oid] \<Rightarrow> (Inr oid, w1)
           | _ \<Rightarrow> (Inl (''widget not found or ambiguous: '' @ p), w1)))"

text \<open>
  Modelled from the spec: \<open>wcore.QueueLayoutActionForTab\<close>, which is not in the file. It
  appends the action to the tab's queue, which is consumed in submission order.
\<close>

definition QueueLayoutActionForTab :: "LayoutActionData \<Rightarrow> world \<Rightarrow> (string + unit) \<times> world" where
  "QueueLayoutActionForTab a w =
     (let n = length (calls w); w1 = logCall (CallQueueLayoutActionForTab a) w in
      case faults w n of
        Some e \<Rightarrow> (Inl e, w1)
      | None \<Rightarrow> (Inr (), w1\<lparr> layout_queue := layout_queue w @ [a] \<rparr>))"

text \<open>
  Modelled from the spec: \<open>wcore.DeleteBlock\<close>, which is not in the file: the destructive
  delete of the widget entity.
\<close>

definition DeleteBlock :: "string \<Rightarrow> world \<Rightarrow> (string + unit) \<times> world" where
  "DeleteBlock oid w =
     (let n = length (calls w); w1 = logCall (CallDeleteBlock oid) w in
      case faults w n of
        Some e \<Rightarrow> (Inl e, w1)
      | None \<Rightarrow> (Inr (), w1\<lparr> blocks := filter (\<lambda>b. fst b \<noteq> oid) (blocks w) \<rparr>))"

text \<open>
  Modelled from the spec: \<open>wstore.UpdateObjectMeta\<close>, which is not in the file. It merges
  the given fields into the entity's metadata and touches no other field; a null value
  clears its field. An id with no entity is an error.
\<close>

definition mergeMeta :: "meta \<Rightarrow> meta \<Rightarrow> meta" where
  "mergeMeta old upd =
     (\<lambda>k. case upd k of None \<Rightarrow> old k | Some JNull \<Rightarrow> None | Some v \<Rightarrow> Some v)"

definition updateBlockMeta ::
  "string \<Rightarrow> meta \<Rightarrow> (string \<times> meta) list \<Rightarrow> (string \<times> meta) list" where
  "updateBlockMeta oid upd bs =
     map (\<lambda>b. if fst b = oid then (fst b, mergeMeta (snd b) upd) else b) bs"

definition UpdateObjectMeta :: "string \<Rightarrow> meta \<Rightarrow> world \<Rightarrow> (string + unit) \<times> world" where
  "UpdateObjectMeta oid upd w =
     (let n = length (calls w); w1 = logCall (CallUpdateObjectMeta oid upd) w in
      case faults w n of
        Some e \<Rightarrow> (Inl e, w1)
      | None \<Rightarrow>
          if oid \<notin> set (map fst (blocks w)) then (Inl (''not found: block:'' @ oid), w1)
          else (Inr (), w1\<lparr> blocks := updateBlockMeta oid upd (blocks w) \<rparr>))"

text \<open>
  Modelled from the spec: \<open>blockcontroller.ResyncController\<close>, which is not in the file:
  the controller-start side effect, seen here only through the log and its error.
\<close>

definition ResyncController :: "string \<Rightarrow> world \<Rightarrow> (string + unit) \<times> world" where
  "ResyncController oid w =
     (let n = length (calls w); w1 = logCall (CallResyncController oid) w in
      case faults w n of
        Some e \<Rightarrow> (Inl e, w1)
      | None \<Rightarrow> (Inr (), w1))"

text \<open>
  Modelled from the spec: \<open>wcore.SendWaveObjUpdate\<close> and \<open>wps.Broker.SendUpdateEvents\<close>
  (with \<open>waveobj.ContextGetUpdatesRtn\<close>), which are not in the file. Neither returns an
  error; they notify subscribers and change neither the entities nor the queue.
\<close>

definition SendWaveObjUpdate :: "string \<Rightarrow> world \<Rightarrow> world" where
  "SendWaveObjUpdate oid w = logCall (CallSendWaveObjUpdate oid) w"

definition SendUpdateEvents :: "world \<Rightarrow> world" where
  "SendUpdateEvents w = logCall CallSendUpdateEvents w"

text \<open>
  The two action literals with no target: the plain insert of widget\_open and the remove of
  widget\_close, each for the block with the given id.
\<close>

definition insertAction :: "string \<Rightarrow> LayoutActionData" where
  "insertAction oid = \<lparr> ActionType = LayoutActionDataType_Insert, BlockId = oid,
                         TargetBlockId = [], Position = [], Focused = True \<rparr>"

definition removeAction :: "string \<Rightarrow> LayoutActionData" where
  "removeAction oid = \<lparr> ActionType = LayoutActionDataType_Remove, BlockId = oid,
                         TargetBlockId = [], Position = [], Focused = False \<rparr>"

subsection \<open>widget\_open\<close>

text \<open>The metadata map the callback builds before it creates the block.\<close>

definition widgetOpenMeta :: "WidgetOpenToolInput \<Rightarrow> meta" where
  "widgetOpenMeta parsed =
     (let meta = [''view'' \<mapsto> JString (WidgetType parsed)] in
      if WidgetType parsed = ''web'' then meta(''url'' \<mapsto> JString (Url parsed))
      else if WidgetType parsed = ''preview'' then
        (if File parsed \<noteq> [] then meta(''file'' \<mapsto> JString (File parsed)) else meta)
      else if WidgetType parsed = ''term'' then
        (let meta = meta(''controller'' \<mapsto> JString ''shell'') in
         if Connection parsed \<noteq> [] \<and> Connection parsed \<noteq> ''local''
         then meta(''connection'' \<mapsto> JString (Connection parsed)) else meta)
      else if WidgetType parsed = ''cpuplot'' then
        (if Connection parsed \<noteq> [] then meta(''connection'' \<mapsto> JString (Connection parsed))
         else meta)
      else meta)"

text \<open>
  The layout action of widget\_open: a split against a resolved target when both
  \<open>split_direction\<close> and \<open>target_widget\<close> are set, a plain insert otherwise.
\<close>

definition widgetOpenLayoutAction ::
  "WidgetOpenToolInput \<Rightarrow> string \<Rightarrow> world \<Rightarrow> (err + LayoutActionData) \<times> world" where
  "widgetOpenLayoutAction parsed oid w =
     (if SplitDirection parsed \<noteq> [] \<and> TargetWidget parsed \<noteq> [] then
        (case ResolveBlockIdFromPrefix (TargetWidget parsed) w of
           (Inl e, w1) \<Rightarrow>
             (Inl (Error (''failed to find target widget '' @ TargetWidget parsed @ '': '' @ e)), w1)
         | (Inr targetBlockId, w1) \<Rightarrow>
             let position = (if OpenPosition parsed = [] then ''after'' else OpenPosition parsed);
                 actionType = (if SplitDirection parsed = ''vertical''
                               then LayoutActionDataType_SplitVertical
                               else LayoutActionDataType_SplitHorizontal)
             in (Inr \<lparr> ActionType = actionType, BlockId = oid, TargetBlockId = targetBlockId,
                        Position = position, Focused = True \<rparr>, w1))
      else
        (Inr (insertAction oid), w))"

text \<open>The result map of a successful widget\_open.\<close>

definition openResponse :: "string \<Rightarrow> meta" where
  "openResponse oid = [''success'' \<mapsto> JBool True, ''widget_id'' \<mapsto> JString (take 8 oid),
                       ''full_id'' \<mapsto> JString oid]"

text \<open>
  The callback. The result map is built after the updates are sent; \<open>blockData.OID[:8]\<close>
  panics there when the id has fewer than 8 bytes.
\<close>

definition widgetOpenCallback :: "json \<Rightarrow> world \<Rightarrow> (err + meta) \<times> world" where
  "widgetOpenCallback input w =
     (case parseWidgetOpenInput input of
        Inl e \<Rightarrow> (Inl e, w)
      | Inr parsed \<Rightarrow>
          (case CreateBlock (widgetOpenMeta parsed) w of
             (Inl e, w1) \<Rightarrow> (Inl (Error (''failed to create widget: '' @ e)), w1)
           | (Inr oid, w1) \<Rightarrow>
               (case widgetOpenLayoutAction parsed oid w1 of
                  (Inl e, w2) \<Rightarrow> (Inl e, w2)
                | (Inr layoutAction, w2) \<Rightarrow>
                    (case QueueLayoutActionForTab layoutAction w2 of
                       (Inl e, w3) \<Rightarrow> (Inl (Error (''failed to add widget to layout: '' @ e)), w3)
                     | (Inr u, w3) \<Rightarrow>
                         (case (if WidgetType parsed = ''term'' then ResyncController oid w3
                                else (Inr (), w3)) of
                            (Inl e, w4) \<Rightarrow>
                              (Inl (Error (''failed to start terminal controller: '' @ e)), w4)
                          | (Inr u', w4) \<Rightarrow>
                              let w5 = SendUpdateEvents w4 in
                              if length oid < 8
                              then (Inl (Panic ''slice bounds out of range [:8]''), w5)
                              else (Inr (openResponse oid), w5))))))"

subsection \<open>widget\_close\<close>

definition widgetCloseCallback :: "json \<Rightarrow> world \<Rightarrow> (err + meta) \<times> world" where
  "widgetCloseCallback input w =
     (case parseWidgetCloseInput input of
        Inl e \<Rightarrow> (Inl e, w)
      | Inr parsed \<Rightarrow>
          (case ResolveBlockIdFromPrefix (CloseWidgetId parsed) w of
             (Inl e, w1) \<Rightarrow>
               (Inl (Error (''failed to find widget with ID '' @ CloseWidgetId parsed @ '': '' @ e)), w1)
           | (Inr fullBlockId, w1) \<Rightarrow>
               (case QueueLayoutActionForTab (removeAction fullBlockId) w1 of
                  (Inl e, w2) \<Rightarrow> (Inl (Error (''failed to queue layout action: '' @ e)), w2)
                | (Inr u, w2) \<Rightarrow>
                    (case DeleteBlock fullBlockId w2 of
                       (Inl e, w3) \<Rightarrow> (Inl (Error (''failed to close widget: '' @ e)), w3)
                     | (Inr u', w3) \<Rightarrow>
                         (Inr [''success'' \<mapsto> JBool True,
                               ''message'' \<mapsto> JString (''widget '' @ CloseWidgetId parsed @ '' closed'')],
                          SendUpdateEvents w3)))))"

subsection \<open>widget\_rename\<close>

text \<open>\<open>%q\<close> of \<open>fmt.Sprintf\<close> quotes and escapes its argument; the escaping is left abstract.\<close>

definition quoted :: "string \<Rightarrow> string" where
  "quoted s = CHR 0x22 # s @ [CHR 0x22]"

definition widgetRenameCallback :: "json \<Rightarrow> world \<Rightarrow> (err + meta) \<times> world" where
  "widgetRenameCallback input w =
     (case parseWidgetRenameInput input of
        Inl e \<Rightarrow> (Inl e, w)
      | Inr parsed \<Rightarrow>
          (case ResolveBlockIdFromPrefix (RenameWidgetId parsed) w of
             (Inl e, w1) \<Rightarrow>
               (Inl (Error (''failed to find widget with ID '' @ RenameWidgetId parsed @ '': '' @ e)), w1)
           | (Inr fullBlockId, w1) \<Rightarrow>
               (case UpdateObjectMeta fullBlockId [''display:name'' \<mapsto> JString (Name parsed)] w1 of
                  (Inl e, w2) \<Rightarrow> (Inl (Error (''failed to rename widget: '' @ e)), w2)
                | (Inr u, w2) \<Rightarrow>
                    (Inr [''success'' \<mapsto> JBool True,
                          ''message'' \<mapsto> JString (''widget '' @ RenameWidgetId parsed
                                                 @ '' renamed to '' @ quoted (Name parsed))],
                     SendUpdateEvents (SendWaveObjUpdate fullBlockId w2)))))"

subsection \<open>widget\_move\<close>

definition widgetMoveCallback :: "json \<Rightarrow> world \<Rightarrow> (err + meta) \<times> world" where
  "widgetMoveCallback input w =
     (case parseWidgetMoveInput input of
        Inl e \<Rightarrow> (Inl e, w)
      | Inr parsed \<Rightarrow>
          (case ResolveBlockIdFromPrefix (MoveWidgetId parsed) w of
             (Inl e, w1) \<Rightarrow>
               (Inl (Error (''failed to find widget with ID '' @ MoveWidgetId parsed @ '': '' @ e)), w1)
           | (Inr fullBlockId, w1) \<Rightarrow>
               (case ResolveBlockIdFromPrefix (TargetWidgetId parsed) w1 of
                  (Inl e, w2) \<Rightarrow>
                    (Inl (Error (''failed to find target widget with ID '' @ TargetWidgetId parsed
                                 @ '': '' @ e)), w2)
                | (Inr targetBlockId, w2) \<Rightarrow>
                    let position = (if MovePosition parsed = [] then ''after'' else MovePosition parsed);
                        actionType = (if Direction parsed = ''vertical''
                                      then LayoutActionDataType_MoveVertical
                                      else LayoutActionDataType_MoveHorizontal);
                        layoutAction = \<lparr> ActionType = actionType, BlockId = fullBlockId,
                                         TargetBlockId = targetBlockId, Position = position,
                                         Focused = True \<rparr>
                    in
                    (case QueueLayoutActionForTab layoutAction w2 of
                       (Inl e, w3) \<Rightarrow> (Inl (Error (''failed to move widget: '' @ e)), w3)
                     | (Inr u, w3) \<Rightarrow>
                         (Inr [''success'' \<mapsto> JBool True,
                               ''message'' \<mapsto> JString (''widget '' @ MoveWidgetId parsed @ '' moved ''
                                   @ position @ '' '' @ Direction parsed @ '' of widget ''
                                   @ TargetWidgetId parsed)],
                          SendUpdateEvents w3)))))"

subsection \<open>The older duplicate of widget\_open\<close>

text \<open>
  The file holds a second, older copy of the open, close and rename tools. Its close and
  rename tools are the same text as above. Its widget\_open has a struct of four fields (a
  key \<open>split_direction\<close>, \<open>target_widget\<close> or \<open>position\<close> is unknown to it), no
  split, no controller start, and another metadata map for a terminal.
\<close>

record WidgetOpenToolInputDup =
  WidgetTypeDup :: string
  UrlDup :: string
  FileDup :: string
  ConnectionDup :: string

definition openFieldNamesDup :: "string list" where
  "openFieldNamesDup = [''widget_type'', ''url'', ''file'', ''connection'']"

definition parseWidgetOpenInputDup :: "json \<Rightarrow> err + WidgetOpenToolInputDup" where
  "parseWidgetOpenInputDup input =
     (if input = JNull then Inl (Error ''input is required'')
      else case unmarshal openFieldNamesDup input of
        Inl e \<Rightarrow> Inl (Error (''failed to unmarshal input: '' @ e))
      | Inr fs \<Rightarrow>
          let result = \<lparr> WidgetTypeDup = fs ''widget_type'', UrlDup = fs ''url'',
                         FileDup = fs ''file'', ConnectionDup = fs ''connection'' \<rparr>
          in
          if WidgetTypeDup result = [] then Inl (Error ''widget_type is required'')
          else if WidgetTypeDup result \<notin> set validTypes then
            Inl (Error (''invalid widget_type: '' @ WidgetTypeDup result
                        @ ''. Valid types are: term, web, preview, cpuplot''))
          else if WidgetTypeDup result = ''web'' \<and> UrlDup result = [] then
            Inl (Error ''url is required for web widget'')
          else Inr result)"

definition widgetOpenMetaDup :: "WidgetOpenToolInputDup \<Rightarrow> meta" where
  "widgetOpenMetaDup parsed =
     (let meta = [''view'' \<mapsto> JString (WidgetTypeDup parsed)] in
      if WidgetTypeDup parsed = ''web'' then meta(''url'' \<mapsto> JString (UrlDup parsed))
      else if WidgetTypeDup parsed = ''preview'' then
        (if FileDup parsed \<noteq> [] then meta(''file'' \<mapsto> JString (FileDup parsed)) else meta)
      else if WidgetTypeDup parsed = ''term'' then
        (if ConnectionDup parsed \<noteq> []
         then meta(''connection'' \<mapsto> JString (ConnectionDup parsed)) else meta)
      else if WidgetTypeDup parsed = ''cpuplot'' then
        (if ConnectionDup parsed \<noteq> []
         then meta(''connection'' \<mapsto> JString (ConnectionDup parsed)) else meta)
      else meta)"

definition widgetOpenCallbackDup :: "json \<Rightarrow> world \<Rightarrow> (err + meta) \<times> world" where
  "widgetOpenCallbackDup input w =
     (case parseWidgetOpenInputDup input of
        Inl e \<Rightarrow> (Inl e, w)
      | Inr parsed \<Rightarrow>
          (case CreateBlock (widgetOpenMetaDup parsed) w of
             (Inl e, w1) \<Rightarrow> (Inl (Error (''failed to create widget: '' @ e)), w1)
           | (Inr oid, w1) \<Rightarrow>
               (case QueueLayoutActionForTab (insertAction oid) w1 of
                  (Inl e, w2) \<Rightarrow> (Inl (Error (''failed to add widget to layout: '' @ e)), w2)
                | (Inr u, w2) \<Rightarrow>
                    let w3 = SendUpdateEvents w2 in
                    if length oid < 8
                    then (Inl (Panic ''slice bounds out of range [:8]''), w3)
                    else (Inr (openResponse oid), w3))))"

subsection \<open>Example worlds\<close>

text \<open>
  A tab with a terminal and a web widget, an empty queue and an empty log, in which no
  collaborator fails; the same tab with a store that hands out the 3-character id
  \<open>abc\<close>; and the same tab in which the second collaborator call of a command fails.
\<close>

definition exampleWorld :: world where
  "exampleWorld =
     \<lparr> blocks = [(''ab12cd34-aaaa'', [''view'' \<mapsto> JString ''term'']),
                 (''ef56gh78-bbbb'', [''view'' \<mapsto> JString ''web''])],
       layout_queue = [], calls = [], faults = (\<lambda>n. None),
       new_oid = (\<lambda>n. ''0a1b2c3d-cccc'') \<rparr>"

definition shortIdWorld :: world where
  "shortIdWorld = exampleWorld\<lparr> new_oid := (\<lambda>n. ''abc'') \<rparr>"

definition faultyWorld :: world where
  "faultyWorld = exampleWorld\<lparr> faults := (\<lambda>n. if n = 1 then Some ''context deadline exceeded'' else None) \<rparr>"

section \<open>Properties\<close>

lemmas parse_defs =
  parseWidgetOpenInput_def parseWidgetCloseInput_def parseWidgetRenameInput_def
  parseWidgetMoveInput_def

lemmas eval_defs =
  unmarshal_def findField_def upperASCII_def openFieldNames_def closeFieldNames_def
  renameFieldNames_def moveFieldNames_def validTypes_def validDirections_def validPositions_def

lemmas collab_defs =
  CreateBlock_def ResolveBlockIdFromPrefix_def QueueLayoutActionForTab_def DeleteBlock_def
  UpdateObjectMeta_def ResyncController_def SendWaveObjUpdate_def SendUpdateEvents_def logCall_def

lemmas run_defs = widgetOpenCallback_def widgetOpenLayoutAction_def widgetOpenMeta_def
  openResponse_def insertAction_def

lemmas world_defs = exampleWorld_def faultyWorld_def shortIdWorld_def hasPrefix_def

subsection \<open>What one collaborator call does to the world\<close>

lemma CreateBlock_Inr:
  assumes "CreateBlock m w = (Inr oid, w1)"
  shows "oid = new_oid w (length (calls w))" and "faults w (length (calls w)) = None"
    and "w1 = (logCall (CallCreateBlock m) w)\<lparr> blocks := blocks w @ [(oid, m)] \<rparr>"
  using assms by (auto simp: CreateBlock_def Let_def split: option.splits)

lemma CreateBlock_Inl:
  assumes "CreateBlock m w = (Inl e, w1)"
  shows "faults w (length (calls w)) = Some e" and "w1 = logCall (CallCreateBlock m) w"
  using assms by (auto simp: CreateBlock_def Let_def split: option.splits)

lemma Resolve_world:
  assumes "ResolveBlockIdFromPrefix p w = (r, w1)"
  shows "w1 = logCall (CallResolveBlockIdFromPrefix p) w"
  using assms by (auto simp: ResolveBlockIdFromPrefix_def Let_def split: option.splits list.splits)

lemma Resolve_Inr:
  assumes "ResolveBlockIdFromPrefix p w = (Inr oid, w1)"
  shows "filter (\<lambda>i. hasPrefix i p) (map fst (blocks w)) = [oid]"
    and "faults w (length (calls w)) = None"
  using assms by (auto simp: ResolveBlockIdFromPrefix_def Let_def split: option.splits list.splits)

lemma Queue_Inr:
  assumes "QueueLayoutActionForTab a w = (Inr u, w1)"
  shows "faults w (length (calls w)) = None"
    and "w1 = (logCall (CallQueueLayoutActionForTab a) w)\<lparr> layout_queue := layout_queue w @ [a] \<rparr>"
  using assms by (auto simp: QueueLayoutActionForTab_def Let_def split: option.splits)

lemma Queue_Inl:
  assumes "QueueLayoutActionForTab a w = (Inl e, w1)"
  shows "faults w (length (calls w)) = Some e" and "w1 = logCall (CallQueueLayoutActionForTab a) w"
  using assms by (auto simp: QueueLayoutActionForTab_def Let_def split: option.splits)

lemma Resync_world:
  assumes "ResyncController oid w = (r, w1)"
  shows "w1 = logCall (CallResyncController oid) w"
  using assms by (auto simp: ResyncController_def Let_def split: option.splits)

lemma Delete_Inr:
  assumes "DeleteBlock oid w = (Inr u, w1)"
  shows "faults w (length (calls w)) = None"
    and "w1 = (logCall (CallDeleteBlock oid) w)\<lparr> blocks := filter (\<lambda>b. fst b \<noteq> oid) (blocks w) \<rparr>"
  using assms by (auto simp: DeleteBlock_def Let_def split: option.splits)

lemma Update_Inr:
  assumes "UpdateObjectMeta oid upd w = (Inr u, w1)"
  shows "faults w (length (calls w)) = None" and "oid \<in> set (map fst (blocks w))"
    and "w1 = (logCall (CallUpdateObjectMeta oid upd) w)\<lparr> blocks := updateBlockMeta oid upd (blocks w) \<rparr>"
  using assms by (auto simp: UpdateObjectMeta_def Let_def split: option.splits if_splits)

lemma Update_Inl:
  assumes "UpdateObjectMeta oid upd w = (Inl e, w1)"
  shows "w1 = logCall (CallUpdateObjectMeta oid upd) w"
  using assms by (auto simp: UpdateObjectMeta_def Let_def split: option.splits if_splits)

lemma layoutAction_Inr:
  assumes "widgetOpenLayoutAction parsed oid w = (Inr a, w1)"
  shows "if SplitDirection parsed \<noteq> [] \<and> TargetWidget parsed \<noteq> []
         then \<exists>t. ResolveBlockIdFromPrefix (TargetWidget parsed) w = (Inr t, w1)
                \<and> a = \<lparr> ActionType = (if SplitDirection parsed = ''vertical''
                                        then LayoutActionDataType_SplitVertical
                                        else LayoutActionDataType_SplitHorizontal),
                         BlockId = oid, TargetBlockId = t,
                         Position = (if OpenPosition parsed = [] then ''after'' else OpenPosition parsed),
                         Focused = True \<rparr>
         else a = insertAction oid \<and> w1 = w"
proof (cases "SplitDirection parsed \<noteq> [] \<and> TargetWidget parsed \<noteq> []")
  case True
  obtain r w' where res: "ResolveBlockIdFromPrefix (TargetWidget parsed) w = (r, w')"
    by (cases "ResolveBlockIdFromPrefix (TargetWidget parsed) w")
  with True assms show ?thesis
    by (cases r) (auto simp: widgetOpenLayoutAction_def Let_def)
next
  case False
  with assms show ?thesis by (auto simp: widgetOpenLayoutAction_def)
qed

lemma layoutAction_Inl:
  assumes "widgetOpenLayoutAction parsed oid w = (Inl e, w1)"
  shows "SplitDirection parsed \<noteq> [] \<and> TargetWidget parsed \<noteq> []"
    and "w1 = logCall (CallResolveBlockIdFromPrefix (TargetWidget parsed)) w"
proof -
  show s: "SplitDirection parsed \<noteq> [] \<and> TargetWidget parsed \<noteq> []"
    using assms by (auto simp: widgetOpenLayoutAction_def split: if_splits)
  obtain r w' where res: "ResolveBlockIdFromPrefix (TargetWidget parsed) w = (r, w')"
    by (cases "ResolveBlockIdFromPrefix (TargetWidget parsed) w")
  have "w' = w1" using assms s res by (cases r) (auto simp: widgetOpenLayoutAction_def Let_def)
  with Resolve_world [OF res] show "w1 = logCall (CallResolveBlockIdFromPrefix (TargetWidget parsed)) w"
    by simp
qed

lemma layoutAction_world:
  assumes "widgetOpenLayoutAction parsed oid w = (r, w1)"
  shows "w1 = (if SplitDirection parsed \<noteq> [] \<and> TargetWidget parsed \<noteq> []
               then logCall (CallResolveBlockIdFromPrefix (TargetWidget parsed)) w else w)"
proof (cases r)
  case (Inl e)
  with assms layoutAction_Inl [of parsed oid w e w1] show ?thesis by simp
next
  case (Inr a)
  with assms layoutAction_Inr [of parsed oid w a w1] show ?thesis
    by (auto dest: Resolve_world split: if_splits)
qed

subsection \<open>The runs of the widget\_open callback\<close>

text \<open>
  A run whose input parses stops at the first collaborator that fails, or reaches the return
  statement.
\<close>

lemma open_run_cases [consumes 1, case_names create_failed target_failed queue_failed resync_failed returned]:
  assumes "parseWidgetOpenInput input = Inr parsed"
  obtains
    (create_failed) e w1 where
      "CreateBlock (widgetOpenMeta parsed) w = (Inl e, w1)"
      "widgetOpenCallback input w = (Inl (Error (''failed to create widget: '' @ e)), w1)"
  | (target_failed) oid w1 e w2 where
      "CreateBlock (widgetOpenMeta parsed) w = (Inr oid, w1)"
      "widgetOpenLayoutAction parsed oid w1 = (Inl e, w2)"
      "widgetOpenCallback input w = (Inl e, w2)"
  | (queue_failed) oid w1 a w2 e w3 where
      "CreateBlock (widgetOpenMeta parsed) w = (Inr oid, w1)"
      "widgetOpenLayoutAction parsed oid w1 = (Inr a, w2)"
      "QueueLayoutActionForTab a w2 = (Inl e, w3)"
      "widgetOpenCallback input w = (Inl (Error (''failed to add widget to layout: '' @ e)), w3)"
  | (resync_failed) oid w1 a w2 w3 e w4 where
      "CreateBlock (widgetOpenMeta parsed) w = (Inr oid, w1)"
      "widgetOpenLayoutAction parsed oid w1 = (Inr a, w2)"
      "QueueLayoutActionForTab a w2 = (Inr (), w3)"
      "WidgetType parsed = ''term''"
      "ResyncController oid w3 = (Inl e, w4)"
      "widgetOpenCallback input w = (Inl (Error (''failed to start terminal controller: '' @ e)), w4)"
  | (returned) oid w1 a w2 w3 w4 where
      "CreateBlock (widgetOpenMeta parsed) w = (Inr oid, w1)"
      "widgetOpenLayoutAction parsed oid w1 = (Inr a, w2)"
      "QueueLayoutActionForTab a w2 = (Inr (), w3)"
      "w4 = (if WidgetType parsed = ''term'' then logCall (CallResyncController oid) w3 else w3)"
      "WidgetType parsed = ''term'' \<Longrightarrow> ResyncController oid w3 = (Inr (), w4)"
      "widgetOpenCallback input w =
         (if length oid < 8 then Inl (Panic ''slice bounds out of range [:8]'')
          else Inr (openResponse oid), SendUpdateEvents w4)"
proof -
  obtain r1 w1 where c1: "CreateBlock (widgetOpenMeta parsed) w = (r1, w1)"
    by (cases "CreateBlock (widgetOpenMeta parsed) w")
  show thesis
  proof (cases r1)
    case (Inl e)
    with c1 assms show thesis by (intro create_failed) (simp_all add: widgetOpenCallback_def)
  next
    case oid: (Inr oid)
    obtain r2 w2 where c2: "widgetOpenLayoutAction parsed oid w1 = (r2, w2)"
      by (cases "widgetOpenLayoutAction parsed oid w1")
    show thesis
    proof (cases r2)
      case (Inl e)
      with c1 c2 oid assms show thesis by (intro target_failed) (simp_all add: widgetOpenCallback_def)
    next
      case a: (Inr a)
      obtain r3 w3 where c3: "QueueLayoutActionForTab a w2 = (r3, w3)"
        by (cases "QueueLayoutActionForTab a w2")
      show thesis
      proof (cases r3)
        case (Inl e)
        with c1 c2 c3 oid a assms show thesis
          by (intro queue_failed) (simp_all add: widgetOpenCallback_def)
      next
        case u: (Inr u)
        show thesis
        proof (cases "WidgetType parsed = ''term''")
          case False
          with c1 c2 c3 oid a u assms show thesis
            by (intro returned [of oid w1 a w2 w3 w3])
               (simp_all add: widgetOpenCallback_def)
        next
          case True
          obtain r4 w4 where c4: "ResyncController oid w3 = (r4, w4)"
            by (cases "ResyncController oid w3")
          show thesis
          proof (cases r4)
            case (Inl e)
            with c1 c2 c3 c4 oid a u True assms show thesis
              by (intro resync_failed) (simp_all add: widgetOpenCallback_def)
          next
            case (Inr u')
            with c1 c2 c3 c4 oid a u True assms Resync_world [OF c4] show thesis
              by (intro returned [of oid w1 a w2 w3 w4])
                 (simp_all add: widgetOpenCallback_def)
          qed
        qed
      qed
    qed
  qed
qed

text \<open>What a parsed widget\_open input satisfies, and what a failed parse returns.\<close>

lemma parse_open_valid:
  assumes "parseWidgetOpenInput input = Inr parsed"
  shows "WidgetType parsed \<in> set validTypes"
    and "WidgetType parsed = ''web'' \<Longrightarrow> Url parsed \<noteq> []"
    and "SplitDirection parsed \<noteq> [] \<Longrightarrow> SplitDirection parsed \<in> set validDirections \<and> TargetWidget parsed \<noteq> []"
    and "OpenPosition parsed = [] \<or> OpenPosition parsed \<in> set validPositions"
  using assms
  by (auto simp: parseWidgetOpenInput_def Let_def split: sum.splits if_splits)


lemma unmarshal_not_null:
  "unmarshal names input = Inr fs \<Longrightarrow> fs k \<noteq> [] \<Longrightarrow> input \<noteq> JNull"
  by (auto simp: unmarshal_def)

text \<open>The world after the block is created and the layout action is built.\<close>

lemma open_run_world:
  assumes "CreateBlock m w = (Inr oid, w1)"
      and "widgetOpenLayoutAction parsed oid w1 = (r2, w2)"
  shows "blocks w2 = blocks w @ [(oid, m)]" and "layout_queue w2 = layout_queue w"
    and "faults w2 = faults w" and "new_oid w2 = new_oid w"
    and "calls w2 = calls w @ CallCreateBlock m
            # (if SplitDirection parsed \<noteq> [] \<and> TargetWidget parsed \<noteq> []
               then [CallResolveBlockIdFromPrefix (TargetWidget parsed)] else [])"
  using CreateBlock_Inr(3) [OF assms(1)] layoutAction_world [OF assms(2)]
  by (simp_all add: logCall_def)


subsection \<open>Decoding skips the keys it does not know\<close>

lemma decodeFields_filter:
  "decodeFields names (filter (knownKey names) kvs) acc = decodeFields names kvs acc"
proof (induction kvs arbitrary: acc)
  case Nil
  show ?case by simp
next
  case (Cons kv kvs)
  obtain k v where kv: "kv = (k, v)" by (cases kv)
  obtain e fs where acc: "acc = (e, fs)" by (cases acc)
  show ?case
  proof (cases "findField names k")
    case None
    then show ?thesis using Cons.IH by (simp add: kv acc knownKey_def)
  next
    case (Some f)
    then show ?thesis using Cons.IH by (cases v) (simp_all add: kv acc knownKey_def)
  qed
qed

lemma unmarshal_filter:
  "unmarshal names (JObject (filter (knownKey names) kvs)) = unmarshal names (JObject kvs)"
  by (simp add: unmarshal_def decodeFields_filter)

text \<open>
  C2, as amended. The four parsers do not reject a field they do not declare: a key that
  matches no field of the struct (by its exact name or case-folded) is dropped by
  \<open>json.Unmarshal\<close>, so a payload parses exactly as the same payload without those keys,
  to the same struct or to the same error.
\<close>

theorem parsers_drop_unknown_fields:
  "parseWidgetOpenInput (JObject (filter (knownKey openFieldNames) kvs))
     = parseWidgetOpenInput (JObject kvs)
   \<and> parseWidgetCloseInput (JObject (filter (knownKey closeFieldNames) kvs))
     = parseWidgetCloseInput (JObject kvs)
   \<and> parseWidgetRenameInput (JObject (filter (knownKey renameFieldNames) kvs))
     = parseWidgetRenameInput (JObject kvs)
   \<and> parseWidgetMoveInput (JObject (filter (knownKey moveFieldNames) kvs))
     = parseWidgetMoveInput (JObject kvs)"
  unfolding parse_defs unmarshal_filter by simp

text \<open>
  The claim as written fails: each parser accepts a payload that carries the undeclared
  field \<open>bogus\<close>.
\<close>

theorem parsers_accept_unknown_field:
  "parseWidgetOpenInput (JObject [(''bogus'', JString ''x''), (''widget_type'', JString ''term'')])
     = Inr \<lparr> WidgetType = ''term'', Url = [], File = [], Connection = [], SplitDirection = [],
             TargetWidget = [], OpenPosition = [] \<rparr>
   \<and> parseWidgetCloseInput (JObject [(''bogus'', JString ''x''), (''widget_id'', JString ''ab12cd34'')])
     = Inr \<lparr> CloseWidgetId = ''ab12cd34'' \<rparr>
   \<and> parseWidgetRenameInput
       (JObject [(''bogus'', JString ''x''), (''name'', JString ''logs''),
                 (''widget_id'', JString ''ab12cd34'')])
     = Inr \<lparr> RenameWidgetId = ''ab12cd34'', Name = ''logs'' \<rparr>
   \<and> parseWidgetMoveInput
       (JObject [(''bogus'', JString ''x''), (''direction'', JString ''vertical''),
                 (''target_widget_id'', JString ''ef56gh78''), (''widget_id'', JString ''ab12cd34'')])
     = Inr \<lparr> MoveWidgetId = ''ab12cd34'', TargetWidgetId = ''ef56gh78'',
             Direction = ''vertical'', MovePosition = [] \<rparr>
   \<and> findField openFieldNames ''bogus'' = None \<and> findField closeFieldNames ''bogus'' = None
   \<and> findField renameFieldNames ''bogus'' = None \<and> findField moveFieldNames ''bogus'' = None"
  by (simp add: parse_defs eval_defs)

subsection \<open>widget\_close: the remove action goes before the delete\<close>

text \<open>The calls one run of the close callback adds to the log.\<close>

lemma close_trace:
  "\<exists>new. calls (snd (widgetCloseCallback input w)) = calls w @ new
     \<and> (new = [] \<or> (\<exists>p. new = [CallResolveBlockIdFromPrefix p])
        \<or> (\<exists>p oid. new = [CallResolveBlockIdFromPrefix p, CallQueueLayoutActionForTab (removeAction oid)])
        \<or> (\<exists>p oid rest. new = CallResolveBlockIdFromPrefix p
                # CallQueueLayoutActionForTab (removeAction oid) # CallDeleteBlock oid # rest
              \<and> (rest = [] \<or> rest = [CallSendUpdateEvents])
              \<and> removeAction oid \<in> set (layout_queue (snd (widgetCloseCallback input w)))))"
  by (auto simp: widgetCloseCallback_def collab_defs Let_def
        split: sum.splits prod.splits option.splits list.splits if_splits)

lemma close_delete_after_remove:
  assumes "CallDeleteBlock oid' \<in> set (drop (length (calls w)) (calls (snd (widgetCloseCallback input w))))"
  shows "(\<exists>p rest. drop (length (calls w)) (calls (snd (widgetCloseCallback input w)))
            = CallResolveBlockIdFromPrefix p # CallQueueLayoutActionForTab (removeAction oid')
              # CallDeleteBlock oid' # rest)
        \<and> removeAction oid' \<in> set (layout_queue (snd (widgetCloseCallback input w)))"
proof -
  obtain new where new: "calls (snd (widgetCloseCallback input w)) = calls w @ new"
    and cases: "new = [] \<or> (\<exists>p. new = [CallResolveBlockIdFromPrefix p])
        \<or> (\<exists>p oid. new = [CallResolveBlockIdFromPrefix p, CallQueueLayoutActionForTab (removeAction oid)])
        \<or> (\<exists>p oid rest. new = CallResolveBlockIdFromPrefix p
                # CallQueueLayoutActionForTab (removeAction oid) # CallDeleteBlock oid # rest
              \<and> (rest = [] \<or> rest = [CallSendUpdateEvents])
              \<and> removeAction oid \<in> set (layout_queue (snd (widgetCloseCallback input w))))"
    using close_trace [of input w] by blast
  have mem: "CallDeleteBlock oid' \<in> set new" using assms by (simp add: new)
  have d: "drop (length (calls w)) (calls (snd (widgetCloseCallback input w))) = new"
    by (simp add: new)
  from cases mem show ?thesis unfolding d by auto
qed

text \<open>
  C3. A close that succeeds has made exactly four calls, in this order: the resolution, the
  queueing of the Remove action for the resolved widget, the delete of that widget, the
  broadcast; the queue has grown by the Remove action and the entity is gone. When queueing
  the Remove action fails, the callback returns that error after the resolution and the
  queue call only: no delete is attempted and the entities are as before. And in every run,
  whatever its outcome, a delete call stands right after the queue call of the Remove action
  for the same widget, which the queue then holds. The action queued for a widget is of type
  Remove, carries the id of that widget as its block id, and has no target.
\<close>

theorem close_order:
  "(widgetCloseCallback input w = (Inr r, w') \<longrightarrow>
      (\<exists>parsed oid. parseWidgetCloseInput input = Inr parsed
         \<and> fst (ResolveBlockIdFromPrefix (CloseWidgetId parsed) w) = Inr oid
         \<and> calls w' = calls w @ [CallResolveBlockIdFromPrefix (CloseWidgetId parsed),
                                  CallQueueLayoutActionForTab (removeAction oid),
                                  CallDeleteBlock oid, CallSendUpdateEvents]
         \<and> layout_queue w' = layout_queue w @ [removeAction oid]
         \<and> blocks w' = filter (\<lambda>b. fst b \<noteq> oid) (blocks w)))
   \<and> (parseWidgetCloseInput input = Inr parsed
        \<and> ResolveBlockIdFromPrefix (CloseWidgetId parsed) w = (Inr oid, w1)
        \<and> QueueLayoutActionForTab (removeAction oid) w1 = (Inl e, w2) \<longrightarrow>
      widgetCloseCallback input w = (Inl (Error (''failed to queue layout action: '' @ e)), w2)
      \<and> calls w2 = calls w @ [CallResolveBlockIdFromPrefix (CloseWidgetId parsed),
                                CallQueueLayoutActionForTab (removeAction oid)]
      \<and> blocks w2 = blocks w \<and> layout_queue w2 = layout_queue w)
   \<and> (CallDeleteBlock oid' \<in> set (drop (length (calls w)) (calls (snd (widgetCloseCallback input w)))) \<longrightarrow>
        (\<exists>p rest. drop (length (calls w)) (calls (snd (widgetCloseCallback input w)))
            = CallResolveBlockIdFromPrefix p # CallQueueLayoutActionForTab (removeAction oid')
              # CallDeleteBlock oid' # rest)
        \<and> removeAction oid' \<in> set (layout_queue (snd (widgetCloseCallback input w))))
   \<and> ActionType (removeAction x) = LayoutActionDataType_Remove
   \<and> BlockId (removeAction x) = x
   \<and> TargetBlockId (removeAction x) = []"
proof (intro conjI impI)
  assume "widgetCloseCallback input w = (Inr r, w')"
  then show "\<exists>parsed oid. parseWidgetCloseInput input = Inr parsed
         \<and> fst (ResolveBlockIdFromPrefix (CloseWidgetId parsed) w) = Inr oid
         \<and> calls w' = calls w @ [CallResolveBlockIdFromPrefix (CloseWidgetId parsed),
                                  CallQueueLayoutActionForTab (removeAction oid),
                                  CallDeleteBlock oid, CallSendUpdateEvents]
         \<and> layout_queue w' = layout_queue w @ [removeAction oid]
         \<and> blocks w' = filter (\<lambda>b. fst b \<noteq> oid) (blocks w)"
    by (auto simp: widgetCloseCallback_def collab_defs Let_def
        split: sum.splits prod.splits option.splits list.splits if_splits)
next
  assume a: "parseWidgetCloseInput input = Inr parsed
        \<and> ResolveBlockIdFromPrefix (CloseWidgetId parsed) w = (Inr oid, w1)
        \<and> QueueLayoutActionForTab (removeAction oid) w1 = (Inl e, w2)"
  then show "widgetCloseCallback input w = (Inl (Error (''failed to queue layout action: '' @ e)), w2)"
    by (simp add: widgetCloseCallback_def)
  from a show "calls w2 = calls w @ [CallResolveBlockIdFromPrefix (CloseWidgetId parsed),
                                CallQueueLayoutActionForTab (removeAction oid)]"
    by (auto simp: collab_defs Let_def split: option.splits list.splits)
  from a show "blocks w2 = blocks w"
    by (auto simp: collab_defs Let_def split: option.splits list.splits)
  from a show "layout_queue w2 = layout_queue w"
    by (auto simp: collab_defs Let_def split: option.splits list.splits)
next
  assume "CallDeleteBlock oid' \<in> set (drop (length (calls w)) (calls (snd (widgetCloseCallback input w))))"
  from close_delete_after_remove [OF this]
  show "\<exists>p rest. drop (length (calls w)) (calls (snd (widgetCloseCallback input w)))
            = CallResolveBlockIdFromPrefix p # CallQueueLayoutActionForTab (removeAction oid')
              # CallDeleteBlock oid' # rest"
   and "removeAction oid' \<in> set (layout_queue (snd (widgetCloseCallback input w)))"
    by blast+
next
  show "ActionType (removeAction x) = LayoutActionDataType_Remove"
    and "BlockId (removeAction x) = x" and "TargetBlockId (removeAction x) = []"
    by (simp_all add: removeAction_def)
qed


text \<open>
  The theorem at the example tab: closing \<open>ab12cd34\<close> succeeds there with these four
  calls, and fails after two calls when the queue call is the one that fails.
\<close>

theorem close_order_witness:
  "widgetCloseCallback (JObject [(''widget_id'', JString ''ab12cd34'')]) exampleWorld
     = (Inr [''success'' \<mapsto> JBool True, ''message'' \<mapsto> JString ''widget ab12cd34 closed''],
        exampleWorld\<lparr> blocks := [(''ef56gh78-bbbb'', [''view'' \<mapsto> JString ''web''])],
          layout_queue := [removeAction ''ab12cd34-aaaa''],
          calls := [CallResolveBlockIdFromPrefix ''ab12cd34'',
                    CallQueueLayoutActionForTab (removeAction ''ab12cd34-aaaa''),
                    CallDeleteBlock ''ab12cd34-aaaa'', CallSendUpdateEvents] \<rparr>)
   \<and> QueueLayoutActionForTab (removeAction ''ab12cd34-aaaa'')
         (faultyWorld\<lparr> calls := [CallResolveBlockIdFromPrefix ''ab12cd34''] \<rparr>)
     = (Inl ''context deadline exceeded'',
        faultyWorld\<lparr> calls := [CallResolveBlockIdFromPrefix ''ab12cd34'',
                                CallQueueLayoutActionForTab (removeAction ''ab12cd34-aaaa'')] \<rparr>)
   \<and> widgetCloseCallback (JObject [(''widget_id'', JString ''ab12cd34'')]) faultyWorld
     = (Inl (Error ''failed to queue layout action: context deadline exceeded''),
        faultyWorld\<lparr> calls := [CallResolveBlockIdFromPrefix ''ab12cd34'',
                                CallQueueLayoutActionForTab (removeAction ''ab12cd34-aaaa'')] \<rparr>)
   \<and> ActionType (removeAction ''ab12cd34-aaaa'') = LayoutActionDataType_Remove
   \<and> BlockId (removeAction ''ab12cd34-aaaa'') = ''ab12cd34-aaaa''"
proof -
  let ?input = "JObject [(''widget_id'', JString ''ab12cd34'')]"
  let ?w1 = "faultyWorld\<lparr> calls := [CallResolveBlockIdFromPrefix ''ab12cd34''] \<rparr>"
  let ?w2 = "faultyWorld\<lparr> calls := [CallResolveBlockIdFromPrefix ''ab12cd34'',
                                CallQueueLayoutActionForTab (removeAction ''ab12cd34-aaaa'')] \<rparr>"
  have ok: "widgetCloseCallback ?input exampleWorld
     = (Inr [''success'' \<mapsto> JBool True, ''message'' \<mapsto> JString ''widget ab12cd34 closed''],
        exampleWorld\<lparr> blocks := [(''ef56gh78-bbbb'', [''view'' \<mapsto> JString ''web''])],
          layout_queue := [removeAction ''ab12cd34-aaaa''],
          calls := [CallResolveBlockIdFromPrefix ''ab12cd34'',
                    CallQueueLayoutActionForTab (removeAction ''ab12cd34-aaaa''),
                    CallDeleteBlock ''ab12cd34-aaaa'', CallSendUpdateEvents] \<rparr>)"
    by (simp add: widgetCloseCallback_def parseWidgetCloseInput_def eval_defs collab_defs
          world_defs Let_def)
  have parse: "parseWidgetCloseInput ?input = Inr \<lparr> CloseWidgetId = ''ab12cd34'' \<rparr>"
    by (simp add: parseWidgetCloseInput_def eval_defs)
  have resolve: "ResolveBlockIdFromPrefix (CloseWidgetId \<lparr> CloseWidgetId = ''ab12cd34'' \<rparr>) faultyWorld
      = (Inr ''ab12cd34-aaaa'', ?w1)"
    by (simp add: collab_defs world_defs Let_def)
  have queue: "QueueLayoutActionForTab (removeAction ''ab12cd34-aaaa'') ?w1
      = (Inl ''context deadline exceeded'', ?w2)"
    by (simp add: collab_defs world_defs Let_def)
  note inst = close_order [of ?input faultyWorld Map.empty faultyWorld
        "\<lparr> CloseWidgetId = ''ab12cd34'' \<rparr>" "''ab12cd34-aaaa''" ?w1
        "''context deadline exceeded''" ?w2 "[]" "''ab12cd34-aaaa''"]
  have kind: "ActionType (removeAction ''ab12cd34-aaaa'') = LayoutActionDataType_Remove"
    "BlockId (removeAction ''ab12cd34-aaaa'') = ''ab12cd34-aaaa''"
    using inst by blast+
  have "widgetCloseCallback ?input faultyWorld
      = (Inl (Error (''failed to queue layout action: '' @ ''context deadline exceeded'')), ?w2)"
    using inst parse resolve queue by blast
  then have failed: "widgetCloseCallback ?input faultyWorld
      = (Inl (Error ''failed to queue layout action: context deadline exceeded''), ?w2)"
    by simp
  from ok queue failed kind show ?thesis by blast
qed

subsection \<open>widget\_open: the metadata of the created entity\<close>

text \<open>
  The metadata map of the current definition, and of the older duplicate, for an input that
  the definition's own parser accepts.
\<close>

lemma open_meta_current:
  assumes parse: "parseWidgetOpenInput input = Inr parsed"
  shows "(WidgetType parsed = ''term'' \<or> WidgetType parsed = ''web''
           \<or> WidgetType parsed = ''preview'' \<or> WidgetType parsed = ''cpuplot'')
    \<and> (WidgetType parsed = ''term'' \<longrightarrow>
          widgetOpenMeta parsed =
            (if Connection parsed \<noteq> [] \<and> Connection parsed \<noteq> ''local''
             then [''view'' \<mapsto> JString ''term'', ''controller'' \<mapsto> JString ''shell'',
                   ''connection'' \<mapsto> JString (Connection parsed)]
             else [''view'' \<mapsto> JString ''term'', ''controller'' \<mapsto> JString ''shell'']))
    \<and> (WidgetType parsed = ''web'' \<longrightarrow>
          Url parsed \<noteq> [] \<and>
          widgetOpenMeta parsed = [''view'' \<mapsto> JString ''web'', ''url'' \<mapsto> JString (Url parsed)])
    \<and> (WidgetType parsed = ''preview'' \<longrightarrow>
          widgetOpenMeta parsed =
            (if File parsed \<noteq> []
             then [''view'' \<mapsto> JString ''preview'', ''file'' \<mapsto> JString (File parsed)]
             else [''view'' \<mapsto> JString ''preview'']))
    \<and> (WidgetType parsed = ''cpuplot'' \<longrightarrow>
          widgetOpenMeta parsed =
            (if Connection parsed \<noteq> []
             then [''view'' \<mapsto> JString ''cpuplot'', ''connection'' \<mapsto> JString (Connection parsed)]
             else [''view'' \<mapsto> JString ''cpuplot'']))
    \<and> (\<exists>rest. calls (snd (widgetOpenCallback input w))
            = calls w @ CallCreateBlock (widgetOpenMeta parsed) # rest)
    \<and> (\<forall>oid w1. CreateBlock (widgetOpenMeta parsed) w = (Inr oid, w1) \<longrightarrow>
          blocks (snd (widgetOpenCallback input w)) = blocks w @ [(oid, widgetOpenMeta parsed)])"
proof -
  have ty: "WidgetType parsed \<in> set validTypes"
    and url: "WidgetType parsed = ''web'' \<Longrightarrow> Url parsed \<noteq> []"
    using parse_open_valid [OF parse] by blast+
  have maps: "(WidgetType parsed = ''term'' \<or> WidgetType parsed = ''web''
           \<or> WidgetType parsed = ''preview'' \<or> WidgetType parsed = ''cpuplot'')
    \<and> (WidgetType parsed = ''term'' \<longrightarrow>
          widgetOpenMeta parsed =
            (if Connection parsed \<noteq> [] \<and> Connection parsed \<noteq> ''local''
             then [''view'' \<mapsto> JString ''term'', ''controller'' \<mapsto> JString ''shell'',
                   ''connection'' \<mapsto> JString (Connection parsed)]
             else [''view'' \<mapsto> JString ''term'', ''controller'' \<mapsto> JString ''shell'']))
    \<and> (WidgetType parsed = ''web'' \<longrightarrow>
          Url parsed \<noteq> [] \<and>
          widgetOpenMeta parsed = [''view'' \<mapsto> JString ''web'', ''url'' \<mapsto> JString (Url parsed)])
    \<and> (WidgetType parsed = ''preview'' \<longrightarrow>
          widgetOpenMeta parsed =
            (if File parsed \<noteq> []
             then [''view'' \<mapsto> JString ''preview'', ''file'' \<mapsto> JString (File parsed)]
             else [''view'' \<mapsto> JString ''preview'']))
    \<and> (WidgetType parsed = ''cpuplot'' \<longrightarrow>
          widgetOpenMeta parsed =
            (if Connection parsed \<noteq> []
             then [''view'' \<mapsto> JString ''cpuplot'', ''connection'' \<mapsto> JString (Connection parsed)]
             else [''view'' \<mapsto> JString ''cpuplot'']))"
    using ty url by (simp add: widgetOpenMeta_def validTypes_def)
  have run: "(\<exists>rest. calls (snd (widgetOpenCallback input w))
            = calls w @ CallCreateBlock (widgetOpenMeta parsed) # rest)
    \<and> (\<forall>oid w1. CreateBlock (widgetOpenMeta parsed) w = (Inr oid, w1) \<longrightarrow>
          blocks (snd (widgetOpenCallback input w)) = blocks w @ [(oid, widgetOpenMeta parsed)])"
    using parse
  proof (cases rule: open_run_cases [where w = w])
    case (create_failed e w1)
    with CreateBlock_Inl(2) [OF create_failed(1)] show ?thesis by (simp add: logCall_def)
  next
    case (target_failed oid w1 e w2)
    with open_run_world(1,5) [OF target_failed(1,2)] show ?thesis by simp
  next
    case (queue_failed oid w1 a w2 e w3)
    with open_run_world(1,5) [OF queue_failed(1,2)] Queue_Inl(2) [OF queue_failed(3)]
    show ?thesis by (simp add: logCall_def)
  next
    case (resync_failed oid w1 a w2 w3 e w4)
    with open_run_world(1,5) [OF resync_failed(1,2)] Queue_Inr(2) [OF resync_failed(3)]
      Resync_world [OF resync_failed(5)]
    show ?thesis by (simp add: logCall_def)
  next
    case (returned oid w1 a w2 w3 w4)
    with open_run_world(1,5) [OF returned(1,2)] Queue_Inr(2) [OF returned(3)]
    show ?thesis by (simp add: logCall_def SendUpdateEvents_def)
  qed
  from maps run show ?thesis by blast
qed

lemma parse_open_dup_valid:
  assumes "parseWidgetOpenInputDup input = Inr d"
  shows "WidgetTypeDup d \<in> set validTypes"
    and "WidgetTypeDup d = ''web'' \<Longrightarrow> UrlDup d \<noteq> []"
  using assms
  by (auto simp: parseWidgetOpenInputDup_def Let_def split: sum.splits if_splits)

lemma open_dup_run_world:
  assumes parse: "parseWidgetOpenInputDup input = Inr d"
  shows "(\<exists>rest. calls (snd (widgetOpenCallbackDup input w))
            = calls w @ CallCreateBlock (widgetOpenMetaDup d) # rest)
    \<and> (\<forall>oid w1. CreateBlock (widgetOpenMetaDup d) w = (Inr oid, w1) \<longrightarrow>
          blocks (snd (widgetOpenCallbackDup input w)) = blocks w @ [(oid, widgetOpenMetaDup d)])"
proof -
  obtain r1 w1 where c1: "CreateBlock (widgetOpenMetaDup d) w = (r1, w1)"
    by (cases "CreateBlock (widgetOpenMetaDup d) w")
  show ?thesis
  proof (cases r1)
    case (Inl e)
    with c1 CreateBlock_Inl(2) [of "widgetOpenMetaDup d" w e w1] show ?thesis
      by (simp add: widgetOpenCallbackDup_def parse logCall_def)
  next
    case (Inr oid)
    note w1 = CreateBlock_Inr(3) [of "widgetOpenMetaDup d" w oid w1]
    obtain r2 w2 where c2: "QueueLayoutActionForTab (insertAction oid) w1 = (r2, w2)"
      by (cases "QueueLayoutActionForTab (insertAction oid) w1")
    show ?thesis
    proof (cases r2)
      case (Inl e)
      with c1 c2 Inr w1 Queue_Inl(2) [of "insertAction oid" w1 e w2] show ?thesis
        by (simp add: widgetOpenCallbackDup_def parse logCall_def)
    next
      case u: (Inr u)
      with c1 c2 Inr w1 Queue_Inr(2) [of "insertAction oid" w1 u w2] show ?thesis
        by (simp add: widgetOpenCallbackDup_def parse logCall_def SendUpdateEvents_def Let_def)
    qed
  qed
qed

lemma open_meta_dup:
  assumes parse: "parseWidgetOpenInputDup input = Inr d"
  shows "(WidgetTypeDup d = ''term'' \<or> WidgetTypeDup d = ''web''
           \<or> WidgetTypeDup d = ''preview'' \<or> WidgetTypeDup d = ''cpuplot'')
    \<and> (WidgetTypeDup d = ''term'' \<longrightarrow>
          widgetOpenMetaDup d =
            (if ConnectionDup d \<noteq> []
             then [''view'' \<mapsto> JString ''term'', ''connection'' \<mapsto> JString (ConnectionDup d)]
             else [''view'' \<mapsto> JString ''term'']))
    \<and> (WidgetTypeDup d = ''web'' \<longrightarrow>
          UrlDup d \<noteq> [] \<and>
          widgetOpenMetaDup d = [''view'' \<mapsto> JString ''web'', ''url'' \<mapsto> JString (UrlDup d)])
    \<and> (WidgetTypeDup d = ''preview'' \<longrightarrow>
          widgetOpenMetaDup d =
            (if FileDup d \<noteq> []
             then [''view'' \<mapsto> JString ''preview'', ''file'' \<mapsto> JString (FileDup d)]
             else [''view'' \<mapsto> JString ''preview'']))
    \<and> (WidgetTypeDup d = ''cpuplot'' \<longrightarrow>
          widgetOpenMetaDup d =
            (if ConnectionDup d \<noteq> []
             then [''view'' \<mapsto> JString ''cpuplot'', ''connection'' \<mapsto> JString (ConnectionDup d)]
             else [''view'' \<mapsto> JString ''cpuplot'']))"
  using parse_open_dup_valid [OF parse]
  by (simp add: widgetOpenMetaDup_def validTypes_def)

text \<open>
  C4, as amended. The file defines the open callback twice. For a widget\_open input that
  validates, the type is one of the four, and both definitions build, besides the
  \<open>view\<close> field: for \<open>web\<close> the url (never empty); for \<open>preview\<close> the file exactly
  when one is given; for \<open>cpuplot\<close> the connection exactly when one is given. For
  \<open>term\<close> the current definition sets the controller marker \<open>shell\<close> and a connection
  field exactly when the connection is neither empty nor \<open>local\<close>; the older duplicate
  sets no controller marker and a connection field whenever the connection is not empty,
  \<open>local\<close> included. In each definition the first call of the callback is
  \<open>CreateBlock\<close> with this map, and when it succeeds the entity with this map is what the
  run adds to the store.
\<close>

theorem open_meta_by_type:
  "(parseWidgetOpenInput input = Inr parsed \<longrightarrow>
      (WidgetType parsed = ''term'' \<or> WidgetType parsed = ''web''
           \<or> WidgetType parsed = ''preview'' \<or> WidgetType parsed = ''cpuplot'')
    \<and> (WidgetType parsed = ''term'' \<longrightarrow>
          widgetOpenMeta parsed =
            (if Connection parsed \<noteq> [] \<and> Connection parsed \<noteq> ''local''
             then [''view'' \<mapsto> JString ''term'', ''controller'' \<mapsto> JString ''shell'',
                   ''connection'' \<mapsto> JString (Connection parsed)]
             else [''view'' \<mapsto> JString ''term'', ''controller'' \<mapsto> JString ''shell'']))
    \<and> (WidgetType parsed = ''web'' \<longrightarrow>
          Url parsed \<noteq> [] \<and>
          widgetOpenMeta parsed = [''view'' \<mapsto> JString ''web'', ''url'' \<mapsto> JString (Url parsed)])
    \<and> (WidgetType parsed = ''preview'' \<longrightarrow>
          widgetOpenMeta parsed =
            (if File parsed \<noteq> []
             then [''view'' \<mapsto> JString ''preview'', ''file'' \<mapsto> JString (File parsed)]
             else [''view'' \<mapsto> JString ''preview'']))
    \<and> (WidgetType parsed = ''cpuplot'' \<longrightarrow>
          widgetOpenMeta parsed =
            (if Connection parsed \<noteq> []
             then [''view'' \<mapsto> JString ''cpuplot'', ''connection'' \<mapsto> JString (Connection parsed)]
             else [''view'' \<mapsto> JString ''cpuplot'']))
    \<and> (\<exists>rest. calls (snd (widgetOpenCallback input w))
            = calls w @ CallCreateBlock (widgetOpenMeta parsed) # rest)
    \<and> (\<forall>oid w1. CreateBlock (widgetOpenMeta parsed) w = (Inr oid, w1) \<longrightarrow>
          blocks (snd (widgetOpenCallback input w)) = blocks w @ [(oid, widgetOpenMeta parsed)]))
   \<and> (parseWidgetOpenInputDup input = Inr d \<longrightarrow>
      (WidgetTypeDup d = ''term'' \<or> WidgetTypeDup d = ''web''
           \<or> WidgetTypeDup d = ''preview'' \<or> WidgetTypeDup d = ''cpuplot'')
    \<and> (WidgetTypeDup d = ''term'' \<longrightarrow>
          widgetOpenMetaDup d =
            (if ConnectionDup d \<noteq> []
             then [''view'' \<mapsto> JString ''term'', ''connection'' \<mapsto> JString (ConnectionDup d)]
             else [''view'' \<mapsto> JString ''term'']))
    \<and> (WidgetTypeDup d = ''web'' \<longrightarrow>
          UrlDup d \<noteq> [] \<and>
          widgetOpenMetaDup d = [''view'' \<mapsto> JString ''web'', ''url'' \<mapsto> JString (UrlDup d)])
    \<and> (WidgetTypeDup d = ''preview'' \<longrightarrow>
          widgetOpenMetaDup d =
            (if FileDup d \<noteq> []
             then [''view'' \<mapsto> JString ''preview'', ''file'' \<mapsto> JString (FileDup d)]
             else [''view'' \<mapsto> JString ''preview'']))
    \<and> (WidgetTypeDup d = ''cpuplot'' \<longrightarrow>
          widgetOpenMetaDup d =
            (if ConnectionDup d \<noteq> []
             then [''view'' \<mapsto> JString ''cpuplot'', ''connection'' \<mapsto> JString (ConnectionDup d)]
             else [''view'' \<mapsto> JString ''cpuplot'']))
    \<and> (\<exists>rest. calls (snd (widgetOpenCallbackDup input w))
            = calls w @ CallCreateBlock (widgetOpenMetaDup d) # rest)
    \<and> (\<forall>oid w1. CreateBlock (widgetOpenMetaDup d) w = (Inr oid, w1) \<longrightarrow>
          blocks (snd (widgetOpenCallbackDup input w)) = blocks w @ [(oid, widgetOpenMetaDup d)]))"
proof (rule conjI)
  show "parseWidgetOpenInput input = Inr parsed \<longrightarrow>
      (WidgetType parsed = ''term'' \<or> WidgetType parsed = ''web''
           \<or> WidgetType parsed = ''preview'' \<or> WidgetType parsed = ''cpuplot'')
    \<and> (WidgetType parsed = ''term'' \<longrightarrow>
          widgetOpenMeta parsed =
            (if Connection parsed \<noteq> [] \<and> Connection parsed \<noteq> ''local''
             then [''view'' \<mapsto> JString ''term'', ''controller'' \<mapsto> JString ''shell'',
                   ''connection'' \<mapsto> JString (Connection parsed)]
             else [''view'' \<mapsto> JString ''term'', ''controller'' \<mapsto> JString ''shell'']))
    \<and> (WidgetType parsed = ''web'' \<longrightarrow>
          Url parsed \<noteq> [] \<and>
          widgetOpenMeta parsed = [''view'' \<mapsto> JString ''web'', ''url'' \<mapsto> JString (Url parsed)])
    \<and> (WidgetType parsed = ''preview'' \<longrightarrow>
          widgetOpenMeta parsed =
            (if File parsed \<noteq> []
             then [''view'' \<mapsto> JString ''preview'', ''file'' \<mapsto> JString (File parsed)]
             else [''view'' \<mapsto> JString ''preview'']))
    \<and> (WidgetType parsed = ''cpuplot'' \<longrightarrow>
          widgetOpenMeta parsed =
            (if Connection parsed \<noteq> []
             then [''view'' \<mapsto> JString ''cpuplot'', ''connection'' \<mapsto> JString (Connection parsed)]
             else [''view'' \<mapsto> JString ''cpuplot'']))
    \<and> (\<exists>rest. calls (snd (widgetOpenCallback input w))
            = calls w @ CallCreateBlock (widgetOpenMeta parsed) # rest)
    \<and> (\<forall>oid w1. CreateBlock (widgetOpenMeta parsed) w = (Inr oid, w1) \<longrightarrow>
          blocks (snd (widgetOpenCallback input w)) = blocks w @ [(oid, widgetOpenMeta parsed)])"
    by (rule impI) (rule open_meta_current)
next
  show "parseWidgetOpenInputDup input = Inr d \<longrightarrow>
      (WidgetTypeDup d = ''term'' \<or> WidgetTypeDup d = ''web''
           \<or> WidgetTypeDup d = ''preview'' \<or> WidgetTypeDup d = ''cpuplot'')
    \<and> (WidgetTypeDup d = ''term'' \<longrightarrow>
          widgetOpenMetaDup d =
            (if ConnectionDup d \<noteq> []
             then [''view'' \<mapsto> JString ''term'', ''connection'' \<mapsto> JString (ConnectionDup d)]
             else [''view'' \<mapsto> JString ''term'']))
    \<and> (WidgetTypeDup d = ''web'' \<longrightarrow>
          UrlDup d \<noteq> [] \<and>
          widgetOpenMetaDup d = [''view'' \<mapsto> JString ''web'', ''url'' \<mapsto> JString (UrlDup d)])
    \<and> (WidgetTypeDup d = ''preview'' \<longrightarrow>
          widgetOpenMetaDup d =
            (if FileDup d \<noteq> []
             then [''view'' \<mapsto> JString ''preview'', ''file'' \<mapsto> JString (FileDup d)]
             else [''view'' \<mapsto> JString ''preview'']))
    \<and> (WidgetTypeDup d = ''cpuplot'' \<longrightarrow>
          widgetOpenMetaDup d =
            (if ConnectionDup d \<noteq> []
             then [''view'' \<mapsto> JString ''cpuplot'', ''connection'' \<mapsto> JString (ConnectionDup d)]
             else [''view'' \<mapsto> JString ''cpuplot'']))
    \<and> (\<exists>rest. calls (snd (widgetOpenCallbackDup input w))
            = calls w @ CallCreateBlock (widgetOpenMetaDup d) # rest)
    \<and> (\<forall>oid w1. CreateBlock (widgetOpenMetaDup d) w = (Inr oid, w1) \<longrightarrow>
          blocks (snd (widgetOpenCallbackDup input w)) = blocks w @ [(oid, widgetOpenMetaDup d)])"
  proof (rule impI)
    assume p: "parseWidgetOpenInputDup input = Inr d"
    from open_meta_dup [OF p] open_dup_run_world [OF p, of w]
    show "(WidgetTypeDup d = ''term'' \<or> WidgetTypeDup d = ''web''
           \<or> WidgetTypeDup d = ''preview'' \<or> WidgetTypeDup d = ''cpuplot'')
    \<and> (WidgetTypeDup d = ''term'' \<longrightarrow>
          widgetOpenMetaDup d =
            (if ConnectionDup d \<noteq> []
             then [''view'' \<mapsto> JString ''term'', ''connection'' \<mapsto> JString (ConnectionDup d)]
             else [''view'' \<mapsto> JString ''term'']))
    \<and> (WidgetTypeDup d = ''web'' \<longrightarrow>
          UrlDup d \<noteq> [] \<and>
          widgetOpenMetaDup d = [''view'' \<mapsto> JString ''web'', ''url'' \<mapsto> JString (UrlDup d)])
    \<and> (WidgetTypeDup d = ''preview'' \<longrightarrow>
          widgetOpenMetaDup d =
            (if FileDup d \<noteq> []
             then [''view'' \<mapsto> JString ''preview'', ''file'' \<mapsto> JString (FileDup d)]
             else [''view'' \<mapsto> JString ''preview'']))
    \<and> (WidgetTypeDup d = ''cpuplot'' \<longrightarrow>
          widgetOpenMetaDup d =
            (if ConnectionDup d \<noteq> []
             then [''view'' \<mapsto> JString ''cpuplot'', ''connection'' \<mapsto> JString (ConnectionDup d)]
             else [''view'' \<mapsto> JString ''cpuplot'']))
    \<and> (\<exists>rest. calls (snd (widgetOpenCallbackDup input w))
            = calls w @ CallCreateBlock (widgetOpenMetaDup d) # rest)
    \<and> (\<forall>oid w1. CreateBlock (widgetOpenMetaDup d) w = (Inr oid, w1) \<longrightarrow>
          blocks (snd (widgetOpenCallbackDup input w)) = blocks w @ [(oid, widgetOpenMetaDup d)])"
      by blast
  qed
qed

text \<open>
  The theorem at a terminal on the default connection: the map holds the view and the
  controller marker and no connection.
\<close>

theorem open_meta_by_type_witness:
  "parseWidgetOpenInput (JObject [(''connection'', JString ''local''), (''widget_type'', JString ''term'')])
     = Inr \<lparr> WidgetType = ''term'', Url = [], File = [], Connection = ''local'',
             SplitDirection = [], TargetWidget = [], OpenPosition = [] \<rparr>
   \<and> widgetOpenMeta \<lparr> WidgetType = ''term'', Url = [], File = [], Connection = ''local'',
             SplitDirection = [], TargetWidget = [], OpenPosition = [] \<rparr>
     = [''view'' \<mapsto> JString ''term'', ''controller'' \<mapsto> JString ''shell'']
   \<and> parseWidgetOpenInputDup
        (JObject [(''connection'', JString ''local''), (''widget_type'', JString ''term'')])
     = Inr \<lparr> WidgetTypeDup = ''term'', UrlDup = [], FileDup = [], ConnectionDup = ''local'' \<rparr>
   \<and> widgetOpenMetaDup \<lparr> WidgetTypeDup = ''term'', UrlDup = [], FileDup = [],
                           ConnectionDup = ''local'' \<rparr>
     = [''view'' \<mapsto> JString ''term'', ''connection'' \<mapsto> JString ''local'']"
proof -
  let ?input = "JObject [(''connection'', JString ''local''), (''widget_type'', JString ''term'')]"
  let ?parsed = "\<lparr> WidgetType = ''term'', Url = [], File = [], Connection = ''local'',
                    SplitDirection = [], TargetWidget = [], OpenPosition = [] \<rparr>"
  let ?d = "\<lparr> WidgetTypeDup = ''term'', UrlDup = [], FileDup = [], ConnectionDup = ''local'' \<rparr>"
  have parse: "parseWidgetOpenInput ?input = Inr ?parsed"
    by (simp add: parse_defs eval_defs)
  have parse_dup: "parseWidgetOpenInputDup ?input = Inr ?d"
    by (simp add: parseWidgetOpenInputDup_def openFieldNamesDup_def eval_defs)
  note inst = open_meta_by_type [of ?input ?parsed exampleWorld ?d]
  from inst parse
  have "WidgetType ?parsed = ''term'' \<longrightarrow>
          widgetOpenMeta ?parsed =
            (if Connection ?parsed \<noteq> [] \<and> Connection ?parsed \<noteq> ''local''
             then [''view'' \<mapsto> JString ''term'', ''controller'' \<mapsto> JString ''shell'',
                   ''connection'' \<mapsto> JString (Connection ?parsed)]
             else [''view'' \<mapsto> JString ''term'', ''controller'' \<mapsto> JString ''shell''])"
    by blast
  then have cur: "widgetOpenMeta ?parsed
      = [''view'' \<mapsto> JString ''term'', ''controller'' \<mapsto> JString ''shell'']"
    by simp
  from inst parse_dup
  have "WidgetTypeDup ?d = ''term'' \<longrightarrow>
          widgetOpenMetaDup ?d =
            (if ConnectionDup ?d \<noteq> []
             then [''view'' \<mapsto> JString ''term'', ''connection'' \<mapsto> JString (ConnectionDup ?d)]
             else [''view'' \<mapsto> JString ''term''])"
    by blast
  then have dup: "widgetOpenMetaDup ?d
      = [''view'' \<mapsto> JString ''term'', ''connection'' \<mapsto> JString ''local'']"
    by simp
  from parse cur parse_dup dup show ?thesis by blast
qed

text \<open>
  The claim as written fails on the older duplicate: for a terminal on the connection
  \<open>local\<close> it creates an entity with no controller marker and with the connection
  \<open>local\<close>.
\<close>

theorem open_dup_term_keeps_local:
  "parseWidgetOpenInputDup (JObject [(''connection'', JString ''local''), (''widget_type'', JString ''term'')])
     = Inr \<lparr> WidgetTypeDup = ''term'', UrlDup = [], FileDup = [], ConnectionDup = ''local'' \<rparr>
   \<and> widgetOpenMetaDup \<lparr> WidgetTypeDup = ''term'', UrlDup = [], FileDup = [], ConnectionDup = ''local'' \<rparr>
     = [''view'' \<mapsto> JString ''term'', ''connection'' \<mapsto> JString ''local'']
   \<and> widgetOpenMetaDup \<lparr> WidgetTypeDup = ''term'', UrlDup = [], FileDup = [], ConnectionDup = ''local'' \<rparr>
        ''controller'' = None
   \<and> fst (widgetOpenCallbackDup
            (JObject [(''connection'', JString ''local''), (''widget_type'', JString ''term'')])
            exampleWorld) = Inr (openResponse ''0a1b2c3d-cccc'')
   \<and> blocks (snd (widgetOpenCallbackDup
            (JObject [(''connection'', JString ''local''), (''widget_type'', JString ''term'')])
            exampleWorld))
     = blocks exampleWorld
       @ [(''0a1b2c3d-cccc'', [''view'' \<mapsto> JString ''term'', ''connection'' \<mapsto> JString ''local''])]"
  by (simp add: parseWidgetOpenInputDup_def openFieldNamesDup_def eval_defs widgetOpenCallbackDup_def
        widgetOpenMetaDup_def insertAction_def collab_defs world_defs Let_def)


subsection \<open>widget\_open without a split\<close>

text \<open>
  C5. Take a widget\_open input that validates and has no split direction, in a world
  where the collaborators the run calls do not fail (the create, the queue and, for a
  terminal, the controller start) and the id the store hands out has at least 8 characters.
  Then the callback succeeds; the queue has grown by exactly one action, the Insert for the
  new id with focus requested; the store has grown by exactly one entity, the new id with the
  metadata of C4, whose \<open>view\<close> is the widget type; and the response holds
  \<open>success = true\<close>, \<open>widget_id\<close> = the first 8 characters of the id and
  \<open>full_id\<close> = the id.
\<close>

theorem open_without_split_inserts:
  assumes parse: "parseWidgetOpenInput input = Inr parsed"
      and nosplit: "SplitDirection parsed = []"
      and oid: "oid = new_oid w (length (calls w))"
      and f0: "faults w (length (calls w)) = None"
      and f1: "faults w (length (calls w) + 1) = None"
      and f2: "WidgetType parsed = ''term'' \<Longrightarrow> faults w (length (calls w) + 2) = None"
      and len: "8 \<le> length oid"
  shows "\<exists>w'. widgetOpenCallback input w = (Inr (openResponse oid), w')
       \<and> layout_queue w' = layout_queue w @ [insertAction oid]
       \<and> ActionType (insertAction oid) = LayoutActionDataType_Insert
       \<and> Focused (insertAction oid) \<and> BlockId (insertAction oid) = oid
       \<and> blocks w' = blocks w @ [(oid, widgetOpenMeta parsed)]
       \<and> widgetOpenMeta parsed ''view'' = Some (JString (WidgetType parsed))
       \<and> openResponse oid ''success'' = Some (JBool True)
       \<and> openResponse oid ''widget_id'' = Some (JString (take 8 oid))
       \<and> length (take 8 oid) = 8
       \<and> openResponse oid ''full_id'' = Some (JString oid)
       \<and> calls w' = calls w @ CallCreateBlock (widgetOpenMeta parsed)
            # CallQueueLayoutActionForTab (insertAction oid)
            # (if WidgetType parsed = ''term'' then [CallResyncController oid] else [])
            @ [CallSendUpdateEvents]"
proof -
  let ?m = "widgetOpenMeta parsed"
  let ?w1 = "(logCall (CallCreateBlock ?m) w)\<lparr> blocks := blocks w @ [(oid, ?m)] \<rparr>"
  let ?w3 = "(logCall (CallQueueLayoutActionForTab (insertAction oid)) ?w1)
               \<lparr> layout_queue := layout_queue w @ [insertAction oid] \<rparr>"
  let ?w4 = "if WidgetType parsed = ''term'' then logCall (CallResyncController oid) ?w3 else ?w3"
  have c1: "CreateBlock ?m w = (Inr oid, ?w1)"
    using f0 oid by (simp add: CreateBlock_def Let_def)
  have c2: "widgetOpenLayoutAction parsed oid ?w1 = (Inr (insertAction oid), ?w1)"
    using nosplit by (simp add: widgetOpenLayoutAction_def)
  have c3: "QueueLayoutActionForTab (insertAction oid) ?w1 = (Inr (), ?w3)"
    using f1 by (simp add: QueueLayoutActionForTab_def logCall_def Let_def)
  have c4: "WidgetType parsed = ''term'' \<Longrightarrow>
              ResyncController oid ?w3 = (Inr (), logCall (CallResyncController oid) ?w3)"
    using f2 by (simp add: ResyncController_def logCall_def Let_def)
  have run: "widgetOpenCallback input w = (Inr (openResponse oid), SendUpdateEvents ?w4)"
  proof (cases "WidgetType parsed = ''term''")
    case True
    with len c4 show ?thesis by (simp add: widgetOpenCallback_def parse c1 c2 c3 Let_def)
  next
    case False
    with len show ?thesis by (simp add: widgetOpenCallback_def parse c1 c2 c3 Let_def)
  qed
  have view: "?m ''view'' = Some (JString (WidgetType parsed))"
    by (simp add: widgetOpenMeta_def Let_def)
  show ?thesis
    using len view
    by (intro exI [of _ "SendUpdateEvents ?w4"])
       (simp add: run SendUpdateEvents_def logCall_def insertAction_def openResponse_def)
qed

text \<open>
  The theorem at the example tab, for a web widget: one Insert is queued, one entity with
  the url is created, and the short id is the first 8 characters of the new id.
\<close>

theorem open_without_split_inserts_witness:
  "\<exists>w'. widgetOpenCallback
       (JObject [(''url'', JString ''https://x''), (''widget_type'', JString ''web'')]) exampleWorld
       = (Inr (openResponse ''0a1b2c3d-cccc''), w')
     \<and> layout_queue w' = [insertAction ''0a1b2c3d-cccc'']
     \<and> blocks w' = blocks exampleWorld
          @ [(''0a1b2c3d-cccc'', [''view'' \<mapsto> JString ''web'', ''url'' \<mapsto> JString ''https://x''])]
     \<and> openResponse ''0a1b2c3d-cccc'' ''widget_id'' = Some (JString ''0a1b2c3d'')"
proof -
  let ?input = "JObject [(''url'', JString ''https://x''), (''widget_type'', JString ''web'')]"
  let ?parsed = "\<lparr> WidgetType = ''web'', Url = ''https://x'', File = [], Connection = [],
                    SplitDirection = [], TargetWidget = [], OpenPosition = [] \<rparr>"
  have parse: "parseWidgetOpenInput ?input = Inr ?parsed"
    by (simp add: parse_defs eval_defs)
  have nosplit: "SplitDirection ?parsed = []" by simp
  have oid: "''0a1b2c3d-cccc'' = new_oid exampleWorld (length (calls exampleWorld))"
    by (simp add: exampleWorld_def)
  have f0: "faults exampleWorld (length (calls exampleWorld)) = None"
    and f1: "faults exampleWorld (length (calls exampleWorld) + 1) = None"
    and f2: "WidgetType ?parsed = ''term'' \<Longrightarrow>
               faults exampleWorld (length (calls exampleWorld) + 2) = None"
    by (simp_all add: exampleWorld_def)
  have len: "8 \<le> length ''0a1b2c3d-cccc''" by simp
  have m: "widgetOpenMeta ?parsed = [''view'' \<mapsto> JString ''web'', ''url'' \<mapsto> JString ''https://x'']"
    by (simp add: widgetOpenMeta_def)
  from open_without_split_inserts [OF parse nosplit oid f0 f1 f2 len]
  obtain w' where w': "widgetOpenCallback ?input exampleWorld = (Inr (openResponse ''0a1b2c3d-cccc''), w')"
    "layout_queue w' = layout_queue exampleWorld @ [insertAction ''0a1b2c3d-cccc'']"
    "blocks w' = blocks exampleWorld @ [(''0a1b2c3d-cccc'', widgetOpenMeta ?parsed)]"
    "openResponse ''0a1b2c3d-cccc'' ''widget_id'' = Some (JString (take 8 ''0a1b2c3d-cccc''))"
    by blast
  have q: "layout_queue exampleWorld = []" by (simp add: exampleWorld_def)
  show ?thesis
    using w' by (intro exI [of _ w']) (simp add: m q)
qed

subsection \<open>widget\_open: the short id is sliced without a length check\<close>






subsection \<open>widget\_open: a failing queue does not undo the create\<close>

text \<open>
  C1, as amended. When the input validates, the block is created and the layout action is
  built, and queueing that action fails, the callback returns the error
  \<open>failed to add widget to layout\<close>: nothing is queued, the controller is not started
  and no update is sent (the log ends with the queue call). The create is not rolled back:
  no delete is issued and the new entity stays in the store.
\<close>

theorem open_queue_failure_keeps_entity:
  assumes "parseWidgetOpenInput input = Inr parsed"
      and "CreateBlock (widgetOpenMeta parsed) w = (Inr oid, w1)"
      and "widgetOpenLayoutAction parsed oid w1 = (Inr a, w2)"
      and "QueueLayoutActionForTab a w2 = (Inl e, w3)"
  shows "widgetOpenCallback input w = (Inl (Error (''failed to add widget to layout: '' @ e)), w3)
       \<and> blocks w3 = blocks w @ [(oid, widgetOpenMeta parsed)]
       \<and> layout_queue w3 = layout_queue w
       \<and> calls w3 = calls w @ CallCreateBlock (widgetOpenMeta parsed)
            # (if SplitDirection parsed \<noteq> [] then [CallResolveBlockIdFromPrefix (TargetWidget parsed)] else [])
            @ [CallQueueLayoutActionForTab a]"
proof -
  have run: "widgetOpenCallback input w = (Inl (Error (''failed to add widget to layout: '' @ e)), w3)"
    using assms by (simp add: widgetOpenCallback_def)
  have split: "SplitDirection parsed \<noteq> [] \<Longrightarrow> TargetWidget parsed \<noteq> []"
    using parse_open_valid(3) [OF assms(1)] by simp
  have w1: "w1 = (logCall (CallCreateBlock (widgetOpenMeta parsed)) w)\<lparr> blocks := blocks w @ [(oid, widgetOpenMeta parsed)] \<rparr>"
    using CreateBlock_Inr(3) [OF assms(2)] .
  have w2: "w2 = (if SplitDirection parsed \<noteq> [] \<and> TargetWidget parsed \<noteq> []
               then logCall (CallResolveBlockIdFromPrefix (TargetWidget parsed)) w1 else w1)"
    using layoutAction_world [OF assms(3)] .
  have w3: "w3 = logCall (CallQueueLayoutActionForTab a) w2"
    using Queue_Inl(2) [OF assms(4)] .
  show ?thesis
    using run split by (auto simp: w1 w2 w3 logCall_def)
qed

text \<open>
  The theorem at the tab whose queue call fails: the callback returns the error, and the
  world it leaves holds the new entity and an empty queue.
\<close>

theorem open_queue_failure_keeps_entity_witness:
  "widgetOpenCallback
     (JObject [(''url'', JString ''https://x''), (''widget_type'', JString ''web'')]) faultyWorld
     = (Inl (Error ''failed to add widget to layout: context deadline exceeded''),
        faultyWorld\<lparr> calls := [CallCreateBlock
                                  [''view'' \<mapsto> JString ''web'', ''url'' \<mapsto> JString ''https://x''],
                                CallQueueLayoutActionForTab (insertAction ''0a1b2c3d-cccc'')],
                      blocks := blocks faultyWorld
                        @ [(''0a1b2c3d-cccc'',
                            [''view'' \<mapsto> JString ''web'', ''url'' \<mapsto> JString ''https://x''])] \<rparr>)"
proof -
  let ?input = "JObject [(''url'', JString ''https://x''), (''widget_type'', JString ''web'')]"
  let ?parsed = "\<lparr> WidgetType = ''web'', Url = ''https://x'', File = [], Connection = [],
                    SplitDirection = [], TargetWidget = [], OpenPosition = [] \<rparr>"
  let ?m = "[''view'' \<mapsto> JString ''web'', ''url'' \<mapsto> JString ''https://x'']"
  let ?w1 = "faultyWorld\<lparr> calls := [CallCreateBlock ?m],
                           blocks := blocks faultyWorld @ [(''0a1b2c3d-cccc'', ?m)] \<rparr>"
  let ?w3 = "faultyWorld\<lparr> calls := [CallCreateBlock ?m,
                                     CallQueueLayoutActionForTab (insertAction ''0a1b2c3d-cccc'')],
                           blocks := blocks faultyWorld @ [(''0a1b2c3d-cccc'', ?m)] \<rparr>"
  have parse: "parseWidgetOpenInput ?input = Inr ?parsed"
    by (simp add: parse_defs eval_defs)
  have m: "widgetOpenMeta ?parsed = ?m" by (simp add: widgetOpenMeta_def)
  have create: "CreateBlock (widgetOpenMeta ?parsed) faultyWorld = (Inr ''0a1b2c3d-cccc'', ?w1)"
    unfolding m by (simp add: collab_defs world_defs Let_def)
  have action: "widgetOpenLayoutAction ?parsed ''0a1b2c3d-cccc'' ?w1
                  = (Inr (insertAction ''0a1b2c3d-cccc''), ?w1)"
    by (simp add: widgetOpenLayoutAction_def)
  have queue: "QueueLayoutActionForTab (insertAction ''0a1b2c3d-cccc'') ?w1
                 = (Inl ''context deadline exceeded'', ?w3)"
    by (simp add: collab_defs world_defs Let_def)
  from open_queue_failure_keeps_entity [OF parse create action queue]
  show ?thesis by simp
qed

text \<open>
  The claim as written fails there: the input validates, the create succeeds, the queue
  call fails, and the store then holds one entity more than before; the log shows the create
  and the queue call and no delete.
\<close>

theorem open_queue_failure_no_rollback:
  "parseWidgetOpenInput (JObject [(''url'', JString ''https://x''), (''widget_type'', JString ''web'')])
     = Inr \<lparr> WidgetType = ''web'', Url = ''https://x'', File = [], Connection = [],
             SplitDirection = [], TargetWidget = [], OpenPosition = [] \<rparr>
   \<and> fst (CreateBlock [''view'' \<mapsto> JString ''web'', ''url'' \<mapsto> JString ''https://x''] faultyWorld)
     = Inr ''0a1b2c3d-cccc''
   \<and> fst (widgetOpenCallback
            (JObject [(''url'', JString ''https://x''), (''widget_type'', JString ''web'')]) faultyWorld)
     = Inl (Error ''failed to add widget to layout: context deadline exceeded'')
   \<and> blocks (snd (widgetOpenCallback
            (JObject [(''url'', JString ''https://x''), (''widget_type'', JString ''web'')]) faultyWorld))
     = blocks faultyWorld
       @ [(''0a1b2c3d-cccc'', [''view'' \<mapsto> JString ''web'', ''url'' \<mapsto> JString ''https://x''])]
   \<and> calls (snd (widgetOpenCallback
            (JObject [(''url'', JString ''https://x''), (''widget_type'', JString ''web'')]) faultyWorld))
     = [CallCreateBlock [''view'' \<mapsto> JString ''web'', ''url'' \<mapsto> JString ''https://x''],
        CallQueueLayoutActionForTab (insertAction ''0a1b2c3d-cccc'')]"
  by (simp add: parse_defs eval_defs run_defs collab_defs world_defs Let_def)

subsection \<open>widget\_open: a split direction without a target\<close>

text \<open>
  C7, as amended. A widget\_open payload that decodes with a non-empty split direction and
  an empty or absent target widget never validates: the callback returns the parser's error
  and leaves the world as it was, so no entity is created, no action is queued and no
  collaborator is called. The error is that of the first check that fails, in the parser's
  order: the widget type is missing; the widget type is not one of the four; a web widget
  has no url; the split direction is neither horizontal nor vertical; and, when all of these
  pass, the missing-field error for \<open>target_widget\<close>.
\<close>

theorem open_split_without_target_rejected:
  assumes dec: "unmarshal openFieldNames input = Inr fs"
      and split: "fs ''split_direction'' \<noteq> []"
      and target: "fs ''target_widget'' = []"
  shows "(\<exists>e. parseWidgetOpenInput input = Inl (Error e)
            \<and> widgetOpenCallback input w = (Inl (Error e), w)
            \<and> e = (if fs ''widget_type'' = [] then ''widget_type is required''
                    else if fs ''widget_type'' \<notin> set validTypes then
                      ''invalid widget_type: '' @ fs ''widget_type''
                        @ ''. Valid types are: term, web, preview, cpuplot''
                    else if fs ''widget_type'' = ''web'' \<and> fs ''url'' = [] then
                      ''url is required for web widget''
                    else if fs ''split_direction'' \<notin> set validDirections then
                      ''invalid split_direction: '' @ fs ''split_direction''
                        @ ''. Valid values are: horizontal, vertical''
                    else ''target_widget is required when split_direction is specified''))
       \<and> (fs ''widget_type'' \<in> set validTypes
            \<and> (fs ''widget_type'' = ''web'' \<longrightarrow> fs ''url'' \<noteq> [])
            \<and> fs ''split_direction'' \<in> set validDirections
          \<longrightarrow> parseWidgetOpenInput input
                = Inl (Error ''target_widget is required when split_direction is specified''))"
proof -
  let ?e = "if fs ''widget_type'' = [] then ''widget_type is required''
                    else if fs ''widget_type'' \<notin> set validTypes then
                      ''invalid widget_type: '' @ fs ''widget_type''
                        @ ''. Valid types are: term, web, preview, cpuplot''
                    else if fs ''widget_type'' = ''web'' \<and> fs ''url'' = [] then
                      ''url is required for web widget''
                    else if fs ''split_direction'' \<notin> set validDirections then
                      ''invalid split_direction: '' @ fs ''split_direction''
                        @ ''. Valid values are: horizontal, vertical''
                    else ''target_widget is required when split_direction is specified''"
  have nn: "input \<noteq> JNull" using unmarshal_not_null [OF dec split] .
  have p: "parseWidgetOpenInput input = Inl (Error ?e)"
    using nn split target by (simp add: parseWidgetOpenInput_def dec Let_def)
  then have c: "widgetOpenCallback input w = (Inl (Error ?e), w)"
    by (simp add: widgetOpenCallback_def)
  have first: "\<exists>e. parseWidgetOpenInput input = Inl (Error e)
            \<and> widgetOpenCallback input w = (Inl (Error e), w) \<and> e = ?e"
    using p c by blast
  have second: "fs ''widget_type'' \<in> set validTypes
            \<and> (fs ''widget_type'' = ''web'' \<longrightarrow> fs ''url'' \<noteq> [])
            \<and> fs ''split_direction'' \<in> set validDirections
          \<longrightarrow> parseWidgetOpenInput input
                = Inl (Error ''target_widget is required when split_direction is specified'')"
    using nn split target by (auto simp: parseWidgetOpenInput_def dec Let_def validTypes_def)
  from first second show ?thesis by blast
qed


text \<open>
  The theorem at a terminal with a horizontal split and no target: the missing-field error,
  and the world untouched.
\<close>

theorem open_split_without_target_rejected_witness:
  "parseWidgetOpenInput
     (JObject [(''split_direction'', JString ''horizontal''), (''widget_type'', JString ''term'')])
     = Inl (Error ''target_widget is required when split_direction is specified'')
   \<and> (\<exists>e. widgetOpenCallback
         (JObject [(''split_direction'', JString ''horizontal''), (''widget_type'', JString ''term'')])
         exampleWorld = (Inl (Error e), exampleWorld))"
proof -
  let ?input = "JObject [(''split_direction'', JString ''horizontal''), (''widget_type'', JString ''term'')]"
  let ?fs = "(\<lambda>_. [])(''split_direction'' := ''horizontal'', ''widget_type'' := ''term'')"
  have dec: "unmarshal openFieldNames ?input = Inr ?fs" by (simp add: eval_defs)
  have split: "?fs ''split_direction'' \<noteq> []" by simp
  have target: "?fs ''target_widget'' = []" by simp
  have pre: "?fs ''widget_type'' \<in> set validTypes
            \<and> (?fs ''widget_type'' = ''web'' \<longrightarrow> ?fs ''url'' \<noteq> [])
            \<and> ?fs ''split_direction'' \<in> set validDirections"
    by (simp add: validTypes_def validDirections_def)
  from open_split_without_target_rejected [OF dec split target, of exampleWorld] pre
  show ?thesis by blast
qed

text \<open>
  The claim as written fails at a split direction outside the enumeration: the payload has
  a split direction and no target, and the error is the one of the enumeration check, which
  comes first.
\<close>

theorem open_split_invalid_direction_error:
  "parseWidgetOpenInput
     (JObject [(''split_direction'', JString ''diagonal''), (''widget_type'', JString ''term'')])
     = Inl (Error ''invalid split_direction: diagonal. Valid values are: horizontal, vertical'')
   \<and> unmarshal openFieldNames
        (JObject [(''split_direction'', JString ''diagonal''), (''widget_type'', JString ''term'')])
        = Inr ((\<lambda>_. [])(''split_direction'' := ''diagonal'', ''widget_type'' := ''term''))"
  by (simp add: parse_defs eval_defs)

subsection \<open>widget\_open: a target or a position without a split direction\<close>

text \<open>With no split direction, an input whose other checks pass validates and compiles to the plain Insert.\<close>

lemma open_no_split_accepts:
  assumes dec: "unmarshal openFieldNames input = Inr fs"
      and nosplit: "fs ''split_direction'' = []"
      and ty: "fs ''widget_type'' \<in> set validTypes"
      and url: "fs ''widget_type'' = ''web'' \<Longrightarrow> fs ''url'' \<noteq> []"
      and pos: "fs ''position'' = [] \<or> fs ''position'' \<in> set validPositions"
  shows "\<exists>parsed. parseWidgetOpenInput input = Inr parsed
       \<and> TargetWidget parsed = fs ''target_widget'' \<and> OpenPosition parsed = fs ''position''
       \<and> (\<forall>oid w1. widgetOpenLayoutAction parsed oid w1 = (Inr (insertAction oid), w1))
       \<and> (\<forall>oid. TargetBlockId (insertAction oid) = [] \<and> Position (insertAction oid) = [])
       \<and> (\<forall>p. CallResolveBlockIdFromPrefix p
                \<notin> set (drop (length (calls w)) (calls (snd (widgetOpenCallback input w)))))
       \<and> (layout_queue (snd (widgetOpenCallback input w)) = layout_queue w
           \<or> layout_queue (snd (widgetOpenCallback input w))
              = layout_queue w @ [insertAction (new_oid w (length (calls w)))])"
proof -
  let ?parsed = "\<lparr> WidgetType = fs ''widget_type'', Url = fs ''url'', File = fs ''file'',
                    Connection = fs ''connection'', SplitDirection = fs ''split_direction'',
                    TargetWidget = fs ''target_widget'', OpenPosition = fs ''position'' \<rparr>"
  have ne: "fs ''widget_type'' \<noteq> []" using ty by (auto simp: validTypes_def)
  have nn: "input \<noteq> JNull" using unmarshal_not_null [OF dec ne] .
  have parse: "parseWidgetOpenInput input = Inr ?parsed"
    using nn nosplit ty url pos ne by (auto simp: parseWidgetOpenInput_def dec Let_def)
  have act: "\<And>oid w1. widgetOpenLayoutAction ?parsed oid w1 = (Inr (insertAction oid), w1)"
    using nosplit by (simp add: widgetOpenLayoutAction_def)
  have run: "(\<forall>p. CallResolveBlockIdFromPrefix p
                \<notin> set (drop (length (calls w)) (calls (snd (widgetOpenCallback input w)))))
       \<and> (layout_queue (snd (widgetOpenCallback input w)) = layout_queue w
           \<or> layout_queue (snd (widgetOpenCallback input w))
              = layout_queue w @ [insertAction (new_oid w (length (calls w)))])"
    using parse
  proof (cases rule: open_run_cases [where w = w])
    case (create_failed e w1)
    with CreateBlock_Inl(2) [OF create_failed(1)] show ?thesis by (simp add: logCall_def)
  next
    case (target_failed oid w1 e w2)
    with act show ?thesis by simp
  next
    case (queue_failed oid w1 a w2 e w3)
    from queue_failed(2) act have a: "a = insertAction oid" "w2 = w1" by simp_all
    from CreateBlock_Inr(3) [OF queue_failed(1)] Queue_Inl(2) [OF queue_failed(3)] a queue_failed(4)
    show ?thesis by (simp add: logCall_def)
  next
    case (resync_failed oid w1 a w2 w3 e w4)
    from resync_failed(2) act have a: "a = insertAction oid" "w2 = w1" by simp_all
    from CreateBlock_Inr(1,3) [OF resync_failed(1)] Queue_Inr(2) [OF resync_failed(3)]
      Resync_world [OF resync_failed(5)] a resync_failed(6)
    show ?thesis by (simp add: logCall_def)
  next
    case (returned oid w1 a w2 w3 w4)
    from returned(2) act have a: "a = insertAction oid" "w2 = w1" by simp_all
    from CreateBlock_Inr(1,3) [OF returned(1)] Queue_Inr(2) [OF returned(3)] a returned(4,6)
    show ?thesis by (simp add: logCall_def SendUpdateEvents_def)
  qed
  have ia: "\<forall>oid. TargetBlockId (insertAction oid) = [] \<and> Position (insertAction oid) = []"
    by (simp add: insertAction_def)
  show ?thesis
    by (intro exI [of _ ?parsed]) (simp add: parse act ia run)
qed

text \<open>
  C10, as amended. A widget\_open payload that decodes with an empty or absent split
  direction validates when its other checks pass: the widget type is one of the four, a web
  widget has its url, and the position is empty, \<open>before\<close> or \<open>after\<close>. The parsed
  input keeps the target widget and the position as given, and they are then ignored: the
  layout action is the plain Insert for the new block (type Insert, that block id, focus
  requested), with no target and no position, the target is never resolved in the run, and
  nothing but that Insert is queued. A position that is given and is neither \<open>before\<close>
  nor \<open>after\<close> is not ignored: the payload is then rejected and the world left as it
  was, with the invalid-position error when the widget type and url checks pass.
\<close>

theorem open_target_without_split_ignored:
  assumes dec: "unmarshal openFieldNames input = Inr fs"
      and nosplit: "fs ''split_direction'' = []"
  shows "(fs ''widget_type'' \<in> set validTypes
          \<and> (fs ''widget_type'' = ''web'' \<longrightarrow> fs ''url'' \<noteq> [])
          \<and> (fs ''position'' = [] \<or> fs ''position'' \<in> set validPositions)
        \<longrightarrow> (\<exists>parsed. parseWidgetOpenInput input = Inr parsed
             \<and> TargetWidget parsed = fs ''target_widget'' \<and> OpenPosition parsed = fs ''position''
             \<and> (\<forall>oid w1. widgetOpenLayoutAction parsed oid w1 = (Inr (insertAction oid), w1))
             \<and> (\<forall>oid. TargetBlockId (insertAction oid) = [] \<and> Position (insertAction oid) = [])
             \<and> (\<forall>p. CallResolveBlockIdFromPrefix p
                      \<notin> set (drop (length (calls w)) (calls (snd (widgetOpenCallback input w)))))
             \<and> (layout_queue (snd (widgetOpenCallback input w)) = layout_queue w
                 \<or> layout_queue (snd (widgetOpenCallback input w))
                    = layout_queue w @ [insertAction (new_oid w (length (calls w)))])))
       \<and> (fs ''position'' \<noteq> [] \<and> fs ''position'' \<notin> set validPositions
        \<longrightarrow> (\<exists>e. parseWidgetOpenInput input = Inl (Error e)
             \<and> widgetOpenCallback input w = (Inl (Error e), w)
             \<and> (fs ''widget_type'' \<in> set validTypes
                  \<and> (fs ''widget_type'' = ''web'' \<longrightarrow> fs ''url'' \<noteq> [])
                \<longrightarrow> e = ''invalid position: '' @ fs ''position''
                          @ ''. Valid values are: before, after'')))
       \<and> ActionType (insertAction x) = LayoutActionDataType_Insert
       \<and> BlockId (insertAction x) = x \<and> Focused (insertAction x)"
proof (intro conjI impI)
  assume a: "fs ''widget_type'' \<in> set validTypes
          \<and> (fs ''widget_type'' = ''web'' \<longrightarrow> fs ''url'' \<noteq> [])
          \<and> (fs ''position'' = [] \<or> fs ''position'' \<in> set validPositions)"
  then have ty: "fs ''widget_type'' \<in> set validTypes"
    and url: "fs ''widget_type'' = ''web'' \<Longrightarrow> fs ''url'' \<noteq> []"
    and pos: "fs ''position'' = [] \<or> fs ''position'' \<in> set validPositions"
    by simp_all
  show "\<exists>parsed. parseWidgetOpenInput input = Inr parsed
             \<and> TargetWidget parsed = fs ''target_widget'' \<and> OpenPosition parsed = fs ''position''
             \<and> (\<forall>oid w1. widgetOpenLayoutAction parsed oid w1 = (Inr (insertAction oid), w1))
             \<and> (\<forall>oid. TargetBlockId (insertAction oid) = [] \<and> Position (insertAction oid) = [])
             \<and> (\<forall>p. CallResolveBlockIdFromPrefix p
                      \<notin> set (drop (length (calls w)) (calls (snd (widgetOpenCallback input w)))))
             \<and> (layout_queue (snd (widgetOpenCallback input w)) = layout_queue w
                 \<or> layout_queue (snd (widgetOpenCallback input w))
                    = layout_queue w @ [insertAction (new_oid w (length (calls w)))])"
    by (rule open_no_split_accepts [OF dec nosplit ty url pos])
next
  assume b: "fs ''position'' \<noteq> [] \<and> fs ''position'' \<notin> set validPositions"
  then have ne: "fs ''position'' \<noteq> []" by simp
  have nn: "input \<noteq> JNull" using unmarshal_not_null [OF dec ne] .
  have p: "\<exists>e. parseWidgetOpenInput input = Inl (Error e)
             \<and> (fs ''widget_type'' \<in> set validTypes
                  \<and> (fs ''widget_type'' = ''web'' \<longrightarrow> fs ''url'' \<noteq> [])
                \<longrightarrow> e = ''invalid position: '' @ fs ''position''
                          @ ''. Valid values are: before, after'')"
    using nn nosplit b by (auto simp: parseWidgetOpenInput_def dec Let_def validTypes_def)
  then obtain e where e: "parseWidgetOpenInput input = Inl (Error e)"
    "fs ''widget_type'' \<in> set validTypes
                  \<and> (fs ''widget_type'' = ''web'' \<longrightarrow> fs ''url'' \<noteq> [])
                \<longrightarrow> e = ''invalid position: '' @ fs ''position''
                          @ ''. Valid values are: before, after''"
    by blast
  from e(1) have "widgetOpenCallback input w = (Inl (Error e), w)"
    by (simp add: widgetOpenCallback_def)
  with e show "\<exists>e. parseWidgetOpenInput input = Inl (Error e)
             \<and> widgetOpenCallback input w = (Inl (Error e), w)
             \<and> (fs ''widget_type'' \<in> set validTypes
                  \<and> (fs ''widget_type'' = ''web'' \<longrightarrow> fs ''url'' \<noteq> [])
                \<longrightarrow> e = ''invalid position: '' @ fs ''position''
                          @ ''. Valid values are: before, after'')"
    by blast
next
  show "ActionType (insertAction x) = LayoutActionDataType_Insert"
    and "BlockId (insertAction x) = x" and "Focused (insertAction x)"
    by (simp_all add: insertAction_def)
qed


text \<open>
  The theorem at a terminal with a target and the position \<open>before\<close> and no split
  direction: it validates, keeps both fields, and compiles to the plain Insert.
\<close>

theorem open_target_without_split_ignored_witness:
  "\<exists>parsed. parseWidgetOpenInput
       (JObject [(''position'', JString ''before''), (''target_widget'', JString ''ef56gh78''),
                 (''widget_type'', JString ''term'')]) = Inr parsed
     \<and> TargetWidget parsed = ''ef56gh78'' \<and> OpenPosition parsed = ''before''
     \<and> widgetOpenLayoutAction parsed ''0a1b2c3d-cccc'' exampleWorld
         = (Inr (insertAction ''0a1b2c3d-cccc''), exampleWorld)"
proof -
  let ?input = "JObject [(''position'', JString ''before''), (''target_widget'', JString ''ef56gh78''),
                 (''widget_type'', JString ''term'')]"
  let ?fs = "(\<lambda>_. [])(''position'' := ''before'', ''target_widget'' := ''ef56gh78'',
                        ''widget_type'' := ''term'')"
  have dec: "unmarshal openFieldNames ?input = Inr ?fs" by (simp add: eval_defs)
  have nosplit: "?fs ''split_direction'' = []" by simp
  have ty: "?fs ''widget_type'' \<in> set validTypes" by (simp add: validTypes_def)
  have url: "?fs ''widget_type'' = ''web'' \<Longrightarrow> ?fs ''url'' \<noteq> []" by simp
  have pos: "?fs ''position'' = [] \<or> ?fs ''position'' \<in> set validPositions"
    by (simp add: validPositions_def)
  have pre: "?fs ''widget_type'' \<in> set validTypes
          \<and> (?fs ''widget_type'' = ''web'' \<longrightarrow> ?fs ''url'' \<noteq> [])
          \<and> (?fs ''position'' = [] \<or> ?fs ''position'' \<in> set validPositions)"
    using ty pos by simp
  from open_target_without_split_ignored [OF dec nosplit, of exampleWorld] pre
  obtain parsed where p: "parseWidgetOpenInput ?input = Inr parsed"
    "TargetWidget parsed = ?fs ''target_widget''" "OpenPosition parsed = ?fs ''position''"
    "\<forall>oid w1. widgetOpenLayoutAction parsed oid w1 = (Inr (insertAction oid), w1)"
    by blast
  then show ?thesis by (intro exI [of _ parsed]) simp
qed

text \<open>
  The claim as written fails at a position outside the enumeration: with no split
  direction the position is still checked, and the payload is rejected.
\<close>

theorem open_position_without_split_rejected:
  "parseWidgetOpenInput
     (JObject [(''position'', JString ''sideways''), (''widget_type'', JString ''term'')])
     = Inl (Error ''invalid position: sideways. Valid values are: before, after'')
   \<and> unmarshal openFieldNames
        (JObject [(''position'', JString ''sideways''), (''widget_type'', JString ''term'')])
        = Inr ((\<lambda>_. [])(''position'' := ''sideways'', ''widget_type'' := ''term''))"
  by (simp add: parse_defs eval_defs)

subsection \<open>widget\_move\<close>

text \<open>
  C6. Take a widget\_move input that validates and whose two widget ids resolve, in a
  world where the queue call does not fail. Then the callback succeeds and has queued exactly
  one action: MoveHorizontal when the direction is \<open>horizontal\<close>, MoveVertical when it is
  \<open>vertical\<close> (it is one of the two), from the resolved widget to the resolved target, at
  the given position or \<open>after\<close> when the position is absent, with focus requested. The
  calls of the run are the two resolutions, the queue call and the broadcast: no entity is
  created, deleted or updated, and the store is as before.
\<close>

theorem move_queues_one_action:
  assumes parse: "parseWidgetMoveInput input = Inr parsed"
      and r1: "ResolveBlockIdFromPrefix (MoveWidgetId parsed) w = (Inr fullBlockId, w1)"
      and r2: "ResolveBlockIdFromPrefix (TargetWidgetId parsed) w1 = (Inr targetBlockId, w2)"
      and q: "faults w2 (length (calls w2)) = None"
  shows "\<exists>r w' act. widgetMoveCallback input w = (Inr r, w')
     \<and> r ''success'' = Some (JBool True)
     \<and> layout_queue w' = layout_queue w @ [act]
     \<and> ActionType act = (if Direction parsed = ''horizontal'' then LayoutActionDataType_MoveHorizontal
                          else LayoutActionDataType_MoveVertical)
     \<and> (Direction parsed = ''horizontal'' \<or> Direction parsed = ''vertical'')
     \<and> Position act = (if MovePosition parsed = [] then ''after'' else MovePosition parsed)
     \<and> (MovePosition parsed = [] \<or> MovePosition parsed = ''before'' \<or> MovePosition parsed = ''after'')
     \<and> BlockId act = fullBlockId \<and> TargetBlockId act = targetBlockId \<and> Focused act
     \<and> calls w' = calls w @ [CallResolveBlockIdFromPrefix (MoveWidgetId parsed),
                              CallResolveBlockIdFromPrefix (TargetWidgetId parsed),
                              CallQueueLayoutActionForTab act, CallSendUpdateEvents]
     \<and> blocks w' = blocks w"
proof -
  have dir: "Direction parsed = ''horizontal'' \<or> Direction parsed = ''vertical''"
    using parse
    by (auto simp: parseWidgetMoveInput_def validDirections_def Let_def split: sum.splits if_splits)
  have pos: "MovePosition parsed = [] \<or> MovePosition parsed = ''before'' \<or> MovePosition parsed = ''after''"
    using parse
    by (auto simp: parseWidgetMoveInput_def validPositions_def Let_def split: sum.splits if_splits)
  let ?act = "\<lparr> ActionType = (if Direction parsed = ''vertical''
                                   then LayoutActionDataType_MoveVertical
                                   else LayoutActionDataType_MoveHorizontal),
                    BlockId = fullBlockId, TargetBlockId = targetBlockId,
                    Position = (if MovePosition parsed = [] then ''after'' else MovePosition parsed),
                    Focused = True \<rparr>"
  let ?w3 = "(logCall (CallQueueLayoutActionForTab ?act) w2)
               \<lparr> layout_queue := layout_queue w2 @ [?act] \<rparr>"
  let ?r = "[''success'' \<mapsto> JBool True,
             ''message'' \<mapsto> JString (''widget '' @ MoveWidgetId parsed @ '' moved ''
                 @ (if MovePosition parsed = [] then ''after'' else MovePosition parsed)
                 @ '' '' @ Direction parsed @ '' of widget '' @ TargetWidgetId parsed)]"
  have q3: "QueueLayoutActionForTab ?act w2 = (Inr (), ?w3)"
    using q by (simp add: QueueLayoutActionForTab_def Let_def)
  have run: "widgetMoveCallback input w = (Inr ?r, SendUpdateEvents ?w3)"
    by (simp add: widgetMoveCallback_def parse r1 r2 q3 Let_def)
  have w2: "w2 = logCall (CallResolveBlockIdFromPrefix (TargetWidgetId parsed))
                   (logCall (CallResolveBlockIdFromPrefix (MoveWidgetId parsed)) w)"
    using Resolve_world [OF r1] Resolve_world [OF r2] by simp
  have fields: "layout_queue (SendUpdateEvents ?w3) = layout_queue w @ [?act]"
     "calls (SendUpdateEvents ?w3) = calls w @ [CallResolveBlockIdFromPrefix (MoveWidgetId parsed),
                              CallResolveBlockIdFromPrefix (TargetWidgetId parsed),
                              CallQueueLayoutActionForTab ?act, CallSendUpdateEvents]"
     "blocks (SendUpdateEvents ?w3) = blocks w"
    by (simp_all add: w2 SendUpdateEvents_def logCall_def)
  have act: "ActionType ?act = (if Direction parsed = ''horizontal'' then LayoutActionDataType_MoveHorizontal
                          else LayoutActionDataType_MoveVertical)"
    using dir by auto
  show ?thesis
    apply (intro exI [of _ ?r] exI [of _ "SendUpdateEvents ?w3"] exI [of _ ?act])
    apply (intro conjI run fields act dir pos)
    apply simp_all
    done
qed

text \<open>
  The theorem at the example tab: moving \<open>ab12cd34\<close> vertically relative to
  \<open>ef56gh78\<close> with no position queues one MoveVertical action with position
  \<open>after\<close> and leaves the store as it was.
\<close>

theorem move_queues_one_action_witness:
  "\<exists>r w' act. widgetMoveCallback
       (JObject [(''direction'', JString ''vertical''), (''target_widget_id'', JString ''ef56gh78''),
                 (''widget_id'', JString ''ab12cd34'')]) exampleWorld = (Inr r, w')
     \<and> layout_queue w' = [act]
     \<and> ActionType act = LayoutActionDataType_MoveVertical \<and> Position act = ''after''
     \<and> BlockId act = ''ab12cd34-aaaa'' \<and> TargetBlockId act = ''ef56gh78-bbbb'' \<and> Focused act
     \<and> blocks w' = blocks exampleWorld"
proof -
  let ?input = "JObject [(''direction'', JString ''vertical''), (''target_widget_id'', JString ''ef56gh78''),
                 (''widget_id'', JString ''ab12cd34'')]"
  let ?parsed = "\<lparr> MoveWidgetId = ''ab12cd34'', TargetWidgetId = ''ef56gh78'',
                    Direction = ''vertical'', MovePosition = [] \<rparr>"
  let ?w1 = "exampleWorld\<lparr> calls := [CallResolveBlockIdFromPrefix ''ab12cd34''] \<rparr>"
  let ?w2 = "exampleWorld\<lparr> calls := [CallResolveBlockIdFromPrefix ''ab12cd34'',
                                      CallResolveBlockIdFromPrefix ''ef56gh78''] \<rparr>"
  have parse: "parseWidgetMoveInput ?input = Inr ?parsed"
    by (simp add: parse_defs eval_defs)
  have r1: "ResolveBlockIdFromPrefix (MoveWidgetId ?parsed) exampleWorld = (Inr ''ab12cd34-aaaa'', ?w1)"
    by (simp add: collab_defs world_defs Let_def)
  have r2: "ResolveBlockIdFromPrefix (TargetWidgetId ?parsed) ?w1 = (Inr ''ef56gh78-bbbb'', ?w2)"
    by (simp add: collab_defs world_defs Let_def)
  have q: "faults ?w2 (length (calls ?w2)) = None" by (simp add: exampleWorld_def)
  from move_queues_one_action [OF parse r1 r2 q]
  obtain r w' act where run: "widgetMoveCallback ?input exampleWorld = (Inr r, w')"
    "layout_queue w' = layout_queue exampleWorld @ [act]"
    "ActionType act = (if Direction ?parsed = ''horizontal'' then LayoutActionDataType_MoveHorizontal
                          else LayoutActionDataType_MoveVertical)"
    "Position act = (if MovePosition ?parsed = [] then ''after'' else MovePosition ?parsed)"
    "BlockId act = ''ab12cd34-aaaa''" "TargetBlockId act = ''ef56gh78-bbbb''" "Focused act"
    "blocks w' = blocks exampleWorld"
    by blast
  have lq: "layout_queue exampleWorld = []" by (simp add: exampleWorld_def)
  show ?thesis
    using run by (intro exI [of _ r] exI [of _ w'] exI [of _ act]) (simp add: lq)
qed

subsection \<open>widget\_rename\<close>

lemma mergeMeta_idem: "mergeMeta (mergeMeta m u) u = mergeMeta m u"
  by (rule ext) (simp add: mergeMeta_def split: option.splits json.splits)

lemma rename_run_cases [consumes 1, case_names resolve_failed update_failed renamed]:
  assumes "parseWidgetRenameInput input = Inr parsed"
  obtains
    (resolve_failed) e w1 where
      "ResolveBlockIdFromPrefix (RenameWidgetId parsed) w = (Inl e, w1)"
      "widgetRenameCallback input w
         = (Inl (Error (''failed to find widget with ID '' @ RenameWidgetId parsed @ '': '' @ e)), w1)"
  | (update_failed) oid w1 e w2 where
      "ResolveBlockIdFromPrefix (RenameWidgetId parsed) w = (Inr oid, w1)"
      "UpdateObjectMeta oid [''display:name'' \<mapsto> JString (Name parsed)] w1 = (Inl e, w2)"
      "widgetRenameCallback input w = (Inl (Error (''failed to rename widget: '' @ e)), w2)"
  | (renamed) oid w1 w2 where
      "ResolveBlockIdFromPrefix (RenameWidgetId parsed) w = (Inr oid, w1)"
      "UpdateObjectMeta oid [''display:name'' \<mapsto> JString (Name parsed)] w1 = (Inr (), w2)"
      "widgetRenameCallback input w
         = (Inr [''success'' \<mapsto> JBool True,
                 ''message'' \<mapsto> JString (''widget '' @ RenameWidgetId parsed
                                        @ '' renamed to '' @ quoted (Name parsed))],
            SendUpdateEvents (SendWaveObjUpdate oid w2))"
proof -
  obtain r1 w1 where c1: "ResolveBlockIdFromPrefix (RenameWidgetId parsed) w = (r1, w1)"
    by (cases "ResolveBlockIdFromPrefix (RenameWidgetId parsed) w")
  show thesis
  proof (cases r1)
    case (Inl e)
    with c1 assms show thesis by (intro resolve_failed) (simp_all add: widgetRenameCallback_def)
  next
    case oid: (Inr oid)
    obtain r2 w2 where c2:
      "UpdateObjectMeta oid [''display:name'' \<mapsto> JString (Name parsed)] w1 = (r2, w2)"
      by (cases "UpdateObjectMeta oid [''display:name'' \<mapsto> JString (Name parsed)] w1")
    show thesis
    proof (cases r2)
      case (Inl e)
      with c1 c2 oid assms show thesis by (intro update_failed) (simp_all add: widgetRenameCallback_def)
    next
      case (Inr u)
      with c1 c2 oid assms show thesis by (intro renamed) (simp_all add: widgetRenameCallback_def)
    qed
  qed
qed

lemma updateBlockMeta_ids: "map fst (updateBlockMeta oid upd bs) = map fst bs"
  by (induction bs) (simp_all add: updateBlockMeta_def)

lemma updateBlockMeta_idem: "updateBlockMeta oid upd (updateBlockMeta oid upd bs) = updateBlockMeta oid upd bs"
  by (induction bs) (simp_all add: updateBlockMeta_def mergeMeta_idem)

lemma updateBlockMeta_name:
  "oid \<in> set (map fst bs) \<Longrightarrow>
     \<exists>m. (oid, m) \<in> set (updateBlockMeta oid [''display:name'' \<mapsto> JString name] bs)
        \<and> m ''display:name'' = Some (JString name)"
  by (induction bs) (auto simp: updateBlockMeta_def mergeMeta_def)

text \<open>The world after any run of the rename callback, by how far it got.\<close>

lemma rename_run_world:
  assumes parse: "parseWidgetRenameInput input = Inr parsed"
  shows "layout_queue (snd (widgetRenameCallback input w)) = layout_queue w
    \<and> (\<exists>new. calls (snd (widgetRenameCallback input w)) = calls w @ new
           \<and> (\<forall>a. CallQueueLayoutActionForTab a \<notin> set new))
    \<and> ((\<exists>r. fst (widgetRenameCallback input w) = Inr r) \<longrightarrow>
           (\<exists>oid. filter (\<lambda>i. hasPrefix i (RenameWidgetId parsed)) (map fst (blocks w)) = [oid]
              \<and> oid \<in> set (map fst (blocks w))
              \<and> blocks (snd (widgetRenameCallback input w))
                  = updateBlockMeta oid [''display:name'' \<mapsto> JString (Name parsed)] (blocks w)))
    \<and> ((\<forall>r. fst (widgetRenameCallback input w) \<noteq> Inr r) \<longrightarrow>
           blocks (snd (widgetRenameCallback input w)) = blocks w)"
  using parse
proof (cases rule: rename_run_cases [where w = w])
  case (resolve_failed e w1)
  with Resolve_world [OF resolve_failed(1)] show ?thesis by (simp add: logCall_def)
next
  case (update_failed oid w1 e w2)
  with Resolve_world [OF update_failed(1)] Update_Inl [OF update_failed(2)]
  show ?thesis by (simp add: logCall_def)
next
  case (renamed oid w1 w2)
  with Resolve_world [OF renamed(1)] Resolve_Inr(1) [OF renamed(1)] Update_Inr(2,3) [OF renamed(2)]
  show ?thesis
    by (simp add: logCall_def SendUpdateEvents_def SendWaveObjUpdate_def updateBlockMeta_def)
qed

text \<open>
  C8. After a rename that succeeded, running the identical command again leaves the
  metadata of every entity as the first run left it, whether the second run succeeds or
  fails; when it succeeds it returns the same response. The renamed entity, whose id starts
  with the given widget id, has the display name of the command. Neither run queues a layout
  action: the queue is as before the first run and the log of both runs holds no queue call.
\<close>

theorem rename_twice_same_metadata:
  assumes first: "widgetRenameCallback input w = (Inr r, w1)"
  shows "blocks (snd (widgetRenameCallback input w1)) = blocks w1
       \<and> layout_queue w1 = layout_queue w
       \<and> layout_queue (snd (widgetRenameCallback input w1)) = layout_queue w
       \<and> (\<forall>a. CallQueueLayoutActionForTab a
              \<notin> set (drop (length (calls w)) (calls (snd (widgetRenameCallback input w1)))))
       \<and> (\<exists>parsed oid m. parseWidgetRenameInput input = Inr parsed
              \<and> (oid, m) \<in> set (blocks w1) \<and> hasPrefix oid (RenameWidgetId parsed)
              \<and> m ''display:name'' = Some (JString (Name parsed)))
       \<and> (\<forall>r2 w2. widgetRenameCallback input w1 = (Inr r2, w2) \<longrightarrow> r2 = r)"
proof -
  obtain parsed where parse: "parseWidgetRenameInput input = Inr parsed"
    using first by (cases "parseWidgetRenameInput input") (simp_all add: widgetRenameCallback_def)
  note one = rename_run_world [OF parse, of w]
  note two = rename_run_world [OF parse, of w1]
  from one first obtain oid where
    res: "filter (\<lambda>i. hasPrefix i (RenameWidgetId parsed)) (map fst (blocks w)) = [oid]"
    and mem: "oid \<in> set (map fst (blocks w))"
    and b1: "blocks w1 = updateBlockMeta oid [''display:name'' \<mapsto> JString (Name parsed)] (blocks w)"
    by auto
  have q1: "layout_queue w1 = layout_queue w" using one first by simp
  have q2: "layout_queue (snd (widgetRenameCallback input w1)) = layout_queue w"
    using two q1 by simp
  obtain new1 where n1: "calls w1 = calls w @ new1" "\<forall>a. CallQueueLayoutActionForTab a \<notin> set new1"
    using one first by auto
  obtain new2 where n2: "calls (snd (widgetRenameCallback input w1)) = calls w1 @ new2"
    "\<forall>a. CallQueueLayoutActionForTab a \<notin> set new2"
    using two by auto
  have noq: "\<forall>a. CallQueueLayoutActionForTab a
              \<notin> set (drop (length (calls w)) (calls (snd (widgetRenameCallback input w1))))"
    using n1 n2 by simp
  have same: "blocks (snd (widgetRenameCallback input w1)) = blocks w1"
  proof (cases "\<exists>r. fst (widgetRenameCallback input w1) = Inr r")
    case False
    with two show ?thesis by simp
  next
    case True
    with two obtain oid' where
      res': "filter (\<lambda>i. hasPrefix i (RenameWidgetId parsed)) (map fst (blocks w1)) = [oid']"
      and b2: "blocks (snd (widgetRenameCallback input w1)) = updateBlockMeta oid' [''display:name'' \<mapsto> JString (Name parsed)] (blocks w1)"
      by auto
    from res res' have "oid' = oid" by (simp add: b1 updateBlockMeta_ids)
    with b2 show ?thesis by (simp add: b1 updateBlockMeta_idem)
  qed
  have "oid \<in> set (filter (\<lambda>i. hasPrefix i (RenameWidgetId parsed)) (map fst (blocks w)))"
    using res by simp
  then have pre: "hasPrefix oid (RenameWidgetId parsed)" by simp
  from updateBlockMeta_name [OF mem, of "Name parsed"] obtain m where
    m: "(oid, m) \<in> set (blocks w1)" "m ''display:name'' = Some (JString (Name parsed))"
    by (auto simp: b1)
  have resp: "\<forall>r2 w2. widgetRenameCallback input w1 = (Inr r2, w2) \<longrightarrow> r2 = r"
    using first parse
    by (auto simp: widgetRenameCallback_def split: prod.splits sum.splits)
  from same q1 q2 noq parse m pre resp show ?thesis by blast
qed

text \<open>
  The theorem at the example tab: renaming \<open>ab12cd34\<close> to \<open>logs\<close> succeeds, and
  a second run changes no metadata and queues nothing.
\<close>

theorem rename_twice_same_metadata_witness:
  "\<exists>r w1. widgetRenameCallback
       (JObject [(''name'', JString ''logs''), (''widget_id'', JString ''ab12cd34'')]) exampleWorld
       = (Inr r, w1)
     \<and> blocks (snd (widgetRenameCallback
          (JObject [(''name'', JString ''logs''), (''widget_id'', JString ''ab12cd34'')]) w1))
       = blocks w1
     \<and> layout_queue (snd (widgetRenameCallback
          (JObject [(''name'', JString ''logs''), (''widget_id'', JString ''ab12cd34'')]) w1)) = []"
proof -
  let ?input = "JObject [(''name'', JString ''logs''), (''widget_id'', JString ''ab12cd34'')]"
  let ?r = "[''success'' \<mapsto> JBool True,
             ''message'' \<mapsto> JString (''widget ab12cd34 renamed to '' @ quoted ''logs'')]"
  let ?w1 = "exampleWorld\<lparr> calls := [CallResolveBlockIdFromPrefix ''ab12cd34'',
                 CallUpdateObjectMeta ''ab12cd34-aaaa'' [''display:name'' \<mapsto> JString ''logs''],
                 CallSendWaveObjUpdate ''ab12cd34-aaaa'', CallSendUpdateEvents],
               blocks := updateBlockMeta ''ab12cd34-aaaa'' [''display:name'' \<mapsto> JString ''logs'']
                           (blocks exampleWorld) \<rparr>"
  have first: "widgetRenameCallback ?input exampleWorld = (Inr ?r, ?w1)"
    by (simp add: widgetRenameCallback_def parse_defs eval_defs collab_defs world_defs Let_def)
  have lq: "layout_queue exampleWorld = []" by (simp add: exampleWorld_def)
  from rename_twice_same_metadata [OF first]
  have "blocks (snd (widgetRenameCallback ?input ?w1)) = blocks ?w1"
    and "layout_queue (snd (widgetRenameCallback ?input ?w1)) = layout_queue exampleWorld"
    by blast+
  with first lq show ?thesis
    by (intro exI [of _ ?r] exI [of _ ?w1]) simp
qed

subsection \<open>The older duplicate of widget\_open\<close>

text \<open>
  The older copy builds the same metadata as the current one for a web, a preview and a
  CPU-plot widget. For a terminal it sets no controller marker, and it sets the connection
  whenever one is given, \<open>local\<close> included.
\<close>

lemma open_dup_meta_term:
  "WidgetTypeDup parsed = ''term'' \<Longrightarrow>
     widgetOpenMetaDup parsed =
       (if ConnectionDup parsed \<noteq> []
        then [''view'' \<mapsto> JString ''term'', ''connection'' \<mapsto> JString (ConnectionDup parsed)]
        else [''view'' \<mapsto> JString ''term''])"
  by (simp add: widgetOpenMetaDup_def)

lemma open_dup_meta_other:
  assumes "WidgetTypeDup d = WidgetType p" and "UrlDup d = Url p" and "FileDup d = File p"
      and "ConnectionDup d = Connection p" and "WidgetType p \<noteq> ''term''"
  shows "widgetOpenMetaDup d = widgetOpenMeta p"
  unfolding widgetOpenMetaDup_def widgetOpenMeta_def assms(1-4)
  using assms(5) by (simp add: Let_def)

text \<open>
  The older copy slices the id in the same way, with no check: once the block is created and
  the Insert is queued, the result is the panic for an id shorter than 8 characters and the
  response with the first 8 characters otherwise.
\<close>

lemma open_dup_slices_id_unchecked:
  assumes "parseWidgetOpenInputDup input = Inr parsed"
      and "CreateBlock (widgetOpenMetaDup parsed) w = (Inr oid, w1)"
      and "QueueLayoutActionForTab (insertAction oid) w1 = (Inr (), w2)"
  shows "widgetOpenCallbackDup input w =
           (if length oid < 8 then Inl (Panic ''slice bounds out of range [:8]'')
            else Inr (openResponse oid), SendUpdateEvents w2)"
  using assms by (simp add: widgetOpenCallbackDup_def Let_def)

end
